theory Spec2Isabelle
  imports Main "HOL-Library.Sublist"
begin

chapter \<open>Conductor: the orchestration kernel\<close>

text \<open>
  A shallow embedding of the TypeScript sources of the repository
  (\<^verbatim>\<open>src/core/types.ts\<close>, \<^verbatim>\<open>src/core/manifests.ts\<close>, \<^verbatim>\<open>src/core/runtime.ts\<close>,
  \<^verbatim>\<open>src/core/logger.ts\<close>, \<^verbatim>\<open>src/core/orchestrator.ts\<close>, \<^verbatim>\<open>src/core/llm/parser.ts\<close>
  and the mock agents under \<^verbatim>\<open>src/agents\<close>), followed by the properties of the
  specification that concern them.

  Conventions of the embedding.
  \<^item> A JavaScript string is a \<^typ>\<open>string\<close>: a list of code units, restricted to the
    code units below 256. Every operation of the sources on strings works unit by unit.
  \<^item> A JavaScript \<^verbatim>\<open>number\<close> that the sources use as a limit of a manifest is a safe
    integer (the type \<open>safeInteger\<close> below); one that they use as a count or a time value is
    an \<^typ>\<open>int\<close> or a \<^typ>\<open>nat\<close>. Fractional values are outside the model.
  \<^item> An ISO-8601 timestamp (\<^verbatim>\<open>new Date().toISOString()\<close>) is represented by the
    instant it renders, in milliseconds since the epoch.
  \<^item> A function that can throw returns a sum, \<open>Inl\<close> carrying the exception.
  \<^item> The clock, the random source and the file system are oracles of an environment
    record; the number of reads made so far and the audit files are threaded through as
    an explicit world state.
\<close>

section \<open>Strings and numbers of the JavaScript runtime\<close>

text \<open>\<^verbatim>\<open>String.prototype.trim\<close> and the regular-expression class \<^verbatim>\<open>\s\<close> remove
  WhiteSpace and LineTerminator code units: TAB, LF, VT, FF, CR, SP and NBSP below 256.\<close>

definition isWhiteSpace :: "char \<Rightarrow> bool" where
  "isWhiteSpace c =
     (c = CHR 0x09 \<or> c = CHR 0x0A \<or> c = CHR 0x0B \<or> c = CHR 0x0C \<or> c = CHR 0x0D \<or>
      c = CHR 0x20 \<or> c = CHR 0xA0)"

definition trimStart :: "string \<Rightarrow> string" where
  "trimStart s = dropWhile isWhiteSpace s"

definition trimEnd :: "string \<Rightarrow> string" where
  "trimEnd s = rev (dropWhile isWhiteSpace (rev s))"

definition trim :: "string \<Rightarrow> string" where
  "trim s = trimEnd (trimStart s)"

text \<open>\<^verbatim>\<open>Array.prototype.join\<close> on an array of strings.\<close>

fun join :: "string \<Rightarrow> string list \<Rightarrow> string" where
  "join sep [] = []"
| "join sep [x] = x"
| "join sep (x # y # ys) = x @ sep @ join sep (y # ys)"

text \<open>The decimal digits of a natural number: the string conversion of a time value
  (\<^verbatim>\<open>Date.now()\<close>) in a template literal.\<close>

definition digitChar :: "nat \<Rightarrow> char" where
  "digitChar d = ''0123456789abcdef'' ! (d mod 16)"

fun decimal :: "nat \<Rightarrow> string" where
  "decimal n = (if n < 10 then [digitChar n] else decimal (n div 10) @ [digitChar (n mod 10)])"

declare decimal.simps [simp del]

text \<open>
  The numeric limits of a manifest (\<^verbatim>\<open>maxExecutionTime\<close>, \<^verbatim>\<open>maxCostCap\<close>) are taken from the
  safe integers (\<^verbatim>\<open>Number.isSafeInteger\<close>: the integers of magnitude at most \<open>2\<^sup>5\<^sup>3 - 1\<close>), which
  hold every limit of \<^verbatim>\<open>src/core/manifests.ts\<close>. On them the number-to-string conversion of
  a template literal gives the decimal digits, with a minus sign below zero; the exponent
  form of the conversion starts at \<open>10\<^sup>2\<^sup>1\<close>, beyond the type.
\<close>

typedef safeInteger = "{i :: int. \<bar>i\<bar> \<le> 9007199254740991}"
  by (rule exI [of _ 0]) simp

definition numberToString :: "safeInteger \<Rightarrow> string" where
  "numberToString n =
     (let i = Rep_safeInteger n
      in if i < 0 then CHR ''-'' # decimal (nat (- i)) else decimal (nat i))"

text \<open>\<^verbatim>\<open>Buffer.prototype.toString('hex')\<close>: two lower-case hexadecimal digits per byte.\<close>

definition toHex :: "nat list \<Rightarrow> string" where
  "toHex bytes = concat (map (\<lambda>b. [digitChar (b div 16), digitChar (b mod 16)]) bytes)"

datatype js_error = TypeError

section \<open>Data model (\<^verbatim>\<open>src/core/types.ts\<close>)\<close>

datatype AgentRole = coordinator | product | dev | qa

definition roleName :: "AgentRole \<Rightarrow> string" where
  "roleName r = (case r of coordinator \<Rightarrow> ''coordinator'' | product \<Rightarrow> ''product''
     | dev \<Rightarrow> ''dev'' | qa \<Rightarrow> ''qa'')"

datatype TaskType = type_technical | type_product | type_ambiguous

record Task =
  taskId :: string
  taskType :: "TaskType option"
  body :: string
  contextRegistry :: "string list"

text \<open>\<^verbatim>\<open>allowNetwork: boolean | readonly string[]\<close>\<close>

datatype AllowNetwork = NetBool bool | NetDomains "string list"

record AgentPermissions =
  allowNetwork :: AllowNetwork
  allowFilesystem :: bool
  maxExecutionTime :: safeInteger
  maxCostCap :: safeInteger

record AgentManifest =
  role :: AgentRole
  manifestImage :: string
  systemPromptPath :: string
  permissions :: AgentPermissions
  tools :: "string list"

datatype NetworkPolicy = network_none | network_domains "string list"

datatype FilesystemPolicy = fs_workspace | fs_none

record ResolvedScope =
  scopeRole :: AgentRole
  effectiveTools :: "string list"
  networkPolicy :: NetworkPolicy
  filesystemPolicy :: FilesystemPolicy
  scopeMaxExecutionTime :: safeInteger
  scopeMaxCostCap :: safeInteger

datatype AgentStatus = ready

record SpawnedAgent =
  agentId :: string
  manifest :: AgentManifest
  task :: Task
  systemPrompt :: string
  scope :: ResolvedScope
  workspacePath :: string
  createdAt :: nat
  status :: AgentStatus

datatype SpawnErrorKind =
  manifest_invalid | system_prompt_missing | permission_conflict | scope_violation

record SpawnError =
  kind :: SpawnErrorKind
  detail :: string
  manifestRole :: AgentRole

datatype SpawnResult = success SpawnedAgent | failure SpawnError

datatype ClassificationCategory = technical_explicit | business | ambiguous

datatype Route = route_product | route_dev

datatype ClassificationConfidence = deterministic | heuristic

record ClassificationResult =
  category :: ClassificationCategory
  routedTo :: Route
  confidence :: ClassificationConfidence
  ruleApplied :: string

record IntentRequirement =
  requirement_id :: string
  requirement_description :: string
  verification :: string

record IntentConstraint =
  constraint_id :: string
  constraint_description :: string

record IntentAssumption =
  assumption_id :: string
  statement :: string
  source :: string

record IntentSpec =
  specId :: string
  specTaskId :: string
  objective :: string
  requirements :: "IntentRequirement list"
  constraints :: "IntentConstraint list"
  outOfScope :: "string list"
  assumptions :: "IntentAssumption list"
  contextRefs :: "string list"

text \<open>A payload value (\<^verbatim>\<open>unknown\<close>): tool arguments and the data of an audit event.\<close>

datatype jsval =
  V_string string | V_number int | V_array "jsval list" | V_object "(string \<times> jsval) list"

record DevArtifact =
  artifactPath :: string
  artifactContent :: string
  artifactType :: string

record ToolInvocation =
  invocationTool :: string
  invocationArgs :: "(string \<times> jsval) list"
  invocationResult :: string
  invocationTimestamp :: nat

datatype DevErrorType =
  dev_scope_violation | spec_unclear | tool_failure | timeout | internal

record DevError =
  errorType :: DevErrorType
  errorDetail :: string

text \<open>\<^verbatim>\<open>DevOutput\<close> is a union discriminated by \<^verbatim>\<open>status\<close>: \<^verbatim>\<open>'completed'\<close> or \<^verbatim>\<open>'failed'\<close>.\<close>

datatype DevOutput =
    completed (devTaskId: string) (devSpecId: string) (artifacts: "DevArtifact list")
      (toolInvocations: "ToolInvocation list")
  | failed (devTaskId: string) (devSpecId: string) (toolInvocations: "ToolInvocation list")
      (devError: DevError)

datatype Verdict = pass | fail

record RequirementResult =
  requirementId :: string
  requirementStatus :: Verdict
  requirementEvidence :: string
  verificationMethod :: string

record ConstraintResult =
  constraintId :: string
  constraintStatus :: Verdict
  constraintEvidence :: string

record ScopeViolation =
  violationDescription :: string
  invocationRef :: string

record ValidationSummary =
  totalRequirements :: nat
  passedRequirements :: nat
  failedRequirements :: nat
  totalConstraints :: nat
  violatedConstraints :: nat
  scopeViolationCount :: nat

record ValidationReport =
  reportTaskId :: string
  reportSpecId :: string
  verdict :: Verdict
  requirementResults :: "RequirementResult list"
  constraintResults :: "ConstraintResult list"
  scopeViolations :: "ScopeViolation list"
  summary :: ValidationSummary

record ExecutionResult =
  resultTaskId :: string
  classification :: ClassificationResult
  intentSpec :: IntentSpec
  devOutput :: DevOutput
  validation :: ValidationReport

record AuditEvent =
  timestamp :: nat
  eventTaskId :: string
  eventType :: string
  eventAgentId :: "string option"
  eventData :: "(string \<times> jsval) list"

section \<open>The tool capability map (\<^verbatim>\<open>src/core/manifests.ts\<close>)\<close>

datatype Capability = network | filesystem

text \<open>The own properties of the object literal \<^verbatim>\<open>TOOL_CAPABILITY_MAP\<close>, in source order.\<close>

definition TOOL_CAPABILITY_MAP_own :: "(string \<times> Capability list) list" where
  "TOOL_CAPABILITY_MAP_own =
    [(''fetch'', [network]), (''curl'', [network]), (''wget'', [network]), (''http'', [network]),
     (''npm'', [network, filesystem]), (''pip'', [network, filesystem]),
     (''read'', [filesystem]), (''write'', [filesystem]), (''fs'', [filesystem]),
     (''cat'', [filesystem]), (''cp'', [filesystem]), (''mv'', [filesystem]),
     (''rm'', [filesystem]), (''mkdir'', [filesystem]),
     (''grep'', []), (''git'', []), (''npm test'', []), (''eslint'', []), (''tsc'', []),
     (''echo'', [])]"

text \<open>
  The map is a plain object literal, so the property read \<^verbatim>\<open>TOOL_CAPABILITY_MAP[tool]\<close>
  also finds what the literal inherits from \<^verbatim>\<open>Object.prototype\<close>. Those members are
  functions (and, for \<^verbatim>\<open>__proto__\<close>, the prototype object): none of them is an
  array, none is \<^verbatim>\<open>undefined\<close> and none has a method \<^verbatim>\<open>includes\<close>.
\<close>

definition Object_prototype_members :: "string list" where
  "Object_prototype_members =
    [''constructor'', ''__defineGetter__'', ''__defineSetter__'', ''hasOwnProperty'',
     ''__lookupGetter__'', ''__lookupSetter__'', ''isPrototypeOf'', ''propertyIsEnumerable'',
     ''toString'', ''valueOf'', ''__proto__'', ''toLocaleString'']"

datatype PropertyValue = capabilityArray "Capability list" | inheritedMember

text \<open>The property read; \<open>None\<close> is \<^verbatim>\<open>undefined\<close>.\<close>

definition TOOL_CAPABILITY_MAP :: "string \<Rightarrow> PropertyValue option" where
  "TOOL_CAPABILITY_MAP tool =
     (case map_of TOOL_CAPABILITY_MAP_own tool of
        Some cs \<Rightarrow> Some (capabilityArray cs)
      | None \<Rightarrow> if tool \<in> set Object_prototype_members then Some inheritedMember else None)"

definition COORDINATOR_MANIFEST :: AgentManifest where
  "COORDINATOR_MANIFEST =
     \<lparr> role = coordinator, manifestImage = ''node:20-alpine'',
       systemPromptPath = ''docs/agents/coordinator.md'',
       permissions = \<lparr> allowNetwork = NetBool False, allowFilesystem = False,
                       maxExecutionTime = Abs_safeInteger 30000,
                       maxCostCap = Abs_safeInteger 5000 \<rparr>,
       tools = [''grep''] \<rparr>"

definition PRODUCT_MANIFEST :: AgentManifest where
  "PRODUCT_MANIFEST =
     \<lparr> role = product, manifestImage = ''node:20-alpine'',
       systemPromptPath = ''docs/agents/product.md'',
       permissions = \<lparr> allowNetwork = NetBool False, allowFilesystem = False,
                       maxExecutionTime = Abs_safeInteger 120000,
                       maxCostCap = Abs_safeInteger 20000 \<rparr>,
       tools = [''grep''] \<rparr>"

definition DEV_MANIFEST :: AgentManifest where
  "DEV_MANIFEST =
     \<lparr> role = dev, manifestImage = ''node:20-alpine'',
       systemPromptPath = ''docs/agents/dev.md'',
       permissions = \<lparr> allowNetwork = NetBool False, allowFilesystem = True,
                       maxExecutionTime = Abs_safeInteger 600000,
                       maxCostCap = Abs_safeInteger 100000 \<rparr>,
       tools = [''read'', ''write'', ''grep'', ''git'', ''npm test'', ''eslint'', ''tsc''] \<rparr>"

definition QA_MANIFEST :: AgentManifest where
  "QA_MANIFEST =
     \<lparr> role = qa, manifestImage = ''node:20-alpine'',
       systemPromptPath = ''docs/agents/qa.md'',
       permissions = \<lparr> allowNetwork = NetBool False, allowFilesystem = False,
                       maxExecutionTime = Abs_safeInteger 300000,
                       maxCostCap = Abs_safeInteger 30000 \<rparr>,
       tools = [''read'', ''grep''] \<rparr>"

section \<open>The environment and the world state\<close>

text \<open>
  \<open>clock k\<close> is the \<open>k\<close>-th reading of the system clock, \<open>entropy d i\<close> byte \<open>i\<close> of the
  \<open>d\<close>-th draw of \<^verbatim>\<open>crypto.randomBytes\<close>, \<open>readFileSync p\<close> the UTF-8 content of the file
  at the absolute path \<open>p\<close> (\<open>None\<close> when the read throws) and \<open>path_resolve\<close> Node's
  \<^verbatim>\<open>path.resolve\<close>.
\<close>

record Env =
  clock :: "nat \<Rightarrow> nat"
  entropy :: "nat \<Rightarrow> nat \<Rightarrow> nat"
  readFileSync :: "string \<Rightarrow> string option"
  path_resolve :: "string list \<Rightarrow> string"

text \<open>
  The world state: the audit files by absolute path (the records appended so far, oldest
  first), and how many clock readings and random draws have been made.
\<close>

record World =
  auditFiles :: "string \<Rightarrow> AuditEvent list"
  clockReads :: nat
  randomDraws :: nat

definition Date_now :: "Env \<Rightarrow> World \<Rightarrow> nat \<times> World" where
  "Date_now env w = (clock env (clockReads w), w\<lparr>clockReads := Suc (clockReads w)\<rparr>)"

definition randomBytes :: "Env \<Rightarrow> nat \<Rightarrow> World \<Rightarrow> nat list \<times> World" where
  "randomBytes env n w =
     (map (\<lambda>i. entropy env (randomDraws w) i mod 256) [0..<n],
      w\<lparr>randomDraws := Suc (randomDraws w)\<rparr>)"


section \<open>Agent spawn logic (\<^verbatim>\<open>src/core/runtime.ts\<close>)\<close>

subsection \<open>Tool filtering\<close>

text \<open>\<^verbatim>\<open>capabilities.includes(c)\<close>: a call of a method that only arrays have.\<close>

definition array_includes :: "PropertyValue \<Rightarrow> Capability \<Rightarrow> js_error + bool" where
  "array_includes capabilities c =
     (case capabilities of
        capabilityArray cs \<Rightarrow> Inr (c \<in> set cs)
      | inheritedMember \<Rightarrow> Inl TypeError)"

text \<open>The callback of \<^verbatim>\<open>tools.filter\<close>. The operator \<^verbatim>\<open>&&\<close> evaluates its right
  operand only when the left one holds.\<close>

definition keepTool :: "AgentPermissions \<Rightarrow> string \<Rightarrow> js_error + bool" where
  "keepTool perms tool =
     (let capabilities = (case TOOL_CAPABILITY_MAP tool of Some v \<Rightarrow> v | None \<Rightarrow> capabilityArray [])
      in case (if allowNetwork perms = NetBool False then array_includes capabilities network
               else Inr False) of
           Inl e \<Rightarrow> Inl e
         | Inr True \<Rightarrow> Inr False
         | Inr False \<Rightarrow>
             (case (if \<not> allowFilesystem perms then array_includes capabilities filesystem
                    else Inr False) of
                Inl e \<Rightarrow> Inl e
              | Inr True \<Rightarrow> Inr False
              | Inr False \<Rightarrow> Inr True))"

text \<open>\<^verbatim>\<open>Array.prototype.filter\<close> calls the callback on the elements in order; an exception
  of the callback ends the whole call.\<close>

fun filterTools :: "string list \<Rightarrow> AgentPermissions \<Rightarrow> js_error + string list" where
  "filterTools [] perms = Inr []"
| "filterTools (tool # rest) perms =
     (case keepTool perms tool of
        Inl e \<Rightarrow> Inl e
      | Inr keep \<Rightarrow>
          (case filterTools rest perms of
             Inl e \<Rightarrow> Inl e
           | Inr kept \<Rightarrow> Inr (if keep then tool # kept else kept)))"

subsection \<open>Scope resolution\<close>

definition resolveScope :: "AgentManifest \<Rightarrow> string list \<Rightarrow> ResolvedScope" where
  "resolveScope m effective =
     \<lparr> scopeRole = role m,
       effectiveTools = effective,
       networkPolicy = (case allowNetwork (permissions m) of
                          NetDomains ds \<Rightarrow> network_domains ds
                        | NetBool b \<Rightarrow> network_none),
       filesystemPolicy = (if allowFilesystem (permissions m) then fs_workspace else fs_none),
       scopeMaxExecutionTime = maxExecutionTime (permissions m),
       scopeMaxCostCap = maxCostCap (permissions m) \<rparr>"

subsection \<open>System prompt assembly\<close>

definition loadSystemPromptContent :: "Env \<Rightarrow> string \<Rightarrow> string \<Rightarrow> string option" where
  "loadSystemPromptContent env promptPath projectRoot =
     readFileSync env (path_resolve env [projectRoot, promptPath])"

definition buildPermissionsBlock :: "ResolvedScope \<Rightarrow> string" where
  "buildPermissionsBlock sc =
     (let networkLine =
            (case networkPolicy sc of
               network_none \<Rightarrow> ''DENIED. No outbound network access is permitted.''
             | network_domains ds \<Rightarrow> ''RESTRICTED. Permitted domains: '' @ join '', '' ds @ ''.'');
          filesystemLine =
            (if filesystemPolicy sc = fs_workspace
             then ''RESTRICTED. Read/write is permitted within ./workspace only. All other paths are denied.''
             else ''DENIED. No filesystem access is permitted.'');
          toolsList =
            (if length (effectiveTools sc) > 0
             then join ''\<newline>'' (map (\<lambda>t. ''  - '' @ t) (effectiveTools sc))
             else ''  (none)'')
      in join ''\<newline>''
      [''---'',
       '''',
       ''## Runtime Permissions'',
       '''',
       ''The following permissions are enforced structurally by the runtime.'',
       ''They are not guidelines. Attempting to exceed them will be denied and logged.'',
       '''',
       ''**Network access:** '' @ networkLine,
       '''',
       ''**Filesystem access:** '' @ filesystemLine,
       '''',
       ''**Permitted tools:**'',
       toolsList,
       '''',
       ''**Execution time limit:** '' @ numberToString (scopeMaxExecutionTime sc) @ ''ms'',
       '''',
       ''**Cost cap:** '' @ numberToString (scopeMaxCostCap sc) @ '' tokens'',
       '''',
       ''---'',
       '''',
       ''## Enforcement Notice'',
       '''',
       ''You are an untrusted, disposable runtime. Your capabilities are enforced externally.'',
       ''You have no memory of prior executions. You have no access to resources not listed above.'',
       ''Your output will be validated against the task specification before acceptance.'',
       ''If your task cannot be completed within these constraints, return a structured failure.'',
       ''Do not attempt workarounds. Do not escalate your own permissions. Fail explicitly.''])"

definition assembleSystemPrompt :: "string \<Rightarrow> ResolvedScope \<Rightarrow> string" where
  "assembleSystemPrompt roleContent sc =
     trimEnd roleContent @ ''\<newline>\<newline>'' @ buildPermissionsBlock sc @ ''\<newline>''"


subsection \<open>Agent identifiers and the public entry point\<close>

definition generateAgentId :: "Env \<Rightarrow> AgentRole \<Rightarrow> World \<Rightarrow> string \<times> World" where
  "generateAgentId env r w =
     (let (now, w1) = Date_now env w;
          (bytes, w2) = randomBytes env 2 w1
      in (roleName r @ ''-'' @ decimal now @ ''-'' @ toHex bytes, w2))"

definition spawnAgent ::
  "Env \<Rightarrow> AgentManifest \<Rightarrow> Task \<Rightarrow> string \<Rightarrow> World \<Rightarrow> js_error + SpawnResult \<times> World" where
  "spawnAgent env m t projectRoot w =
     (case loadSystemPromptContent env (systemPromptPath m) projectRoot of
        None \<Rightarrow>
          Inr (failure \<lparr> kind = system_prompt_missing,
                          detail = ''Cannot read system prompt at path: '' @ systemPromptPath m @
                                   '' (resolved from: '' @ projectRoot @ '')'',
                          manifestRole = role m \<rparr>, w)
      | Some roleContent \<Rightarrow>
          (case filterTools (tools m) (permissions m) of
             Inl e \<Rightarrow> Inl e
           | Inr effective \<Rightarrow>
               (let sc = resolveScope m effective;
                    prompt = assembleSystemPrompt roleContent sc;
                    (ident, w1) = generateAgentId env (role m) w;
                    wsPath = path_resolve env [projectRoot, ''workspace'', ident];
                    (created, w2) = Date_now env w1
                in Inr (success \<lparr> agentId = ident, manifest = m, task = t,
                                   systemPrompt = prompt, scope = sc, workspacePath = wsPath,
                                   createdAt = created, status = ready \<rparr>, w2))))"

text \<open>Whether the capability map tags a tool with a capability.\<close>

definition hasCapability :: "string \<Rightarrow> Capability \<Rightarrow> bool" where
  "hasCapability tool c =
     (case TOOL_CAPABILITY_MAP tool of Some (capabilityArray cs) \<Rightarrow> c \<in> set cs | _ \<Rightarrow> False)"

subsection \<open>Concrete inputs for the examples\<close>

definition env0 :: Env where
  "env0 = \<lparr> clock = (\<lambda>k. 1708276800000 + k),
            entropy = (\<lambda>d i. 163 + 79 * i + d),
            readFileSync = (\<lambda>p. if p = ''/repo/docs/agents/dev.md'' then Some ''# Dev Agent\<newline>''
                                 else None),
            path_resolve = join ''/'' \<rparr>"

definition world0 :: World where
  "world0 = \<lparr> auditFiles = (\<lambda>p. []), clockReads = 0, randomDraws = 0 \<rparr>"

definition task0 :: Task where
  "task0 = \<lparr> taskId = ''task-1'', taskType = None,
             body = ''Refactor the login function in src/auth/login.ts'',
             contextRegistry = [] \<rparr>"

definition netManifest :: AgentManifest where
  "netManifest = DEV_MANIFEST \<lparr> tools := [''fetch'', ''read'', ''npm'', ''grep'', ''deploy''] \<rparr>"

definition unrestrictedManifest :: AgentManifest where
  "unrestrictedManifest =
     DEV_MANIFEST \<lparr> permissions := (permissions DEV_MANIFEST) \<lparr> allowNetwork := NetBool True \<rparr> \<rparr>"

definition inheritedToolManifest :: AgentManifest where
  "inheritedToolManifest = DEV_MANIFEST \<lparr> tools := [''grep'', ''constructor''] \<rparr>"


section \<open>The audit logger (\<^verbatim>\<open>src/core/logger.ts\<close>)\<close>

definition getLogPath :: "Env \<Rightarrow> string \<Rightarrow> string \<Rightarrow> string" where
  "getLogPath env tid projectRoot = path_resolve env [projectRoot, ''logs'', tid @ ''.jsonl'']"

text \<open>
  \<open>logEvent\<close> appends one record to the file of the event's task. Every caller in the
  sources supplies the timestamp, so the fallback \<^verbatim>\<open>event.timestamp || new Date()\<close> never
  reads the clock. The faults of the file system (a failing \<^verbatim>\<open>mkdirSync\<close>, a failing
  \<^verbatim>\<open>appendFileSync\<close> that is reported to stderr) are outside the model.
\<close>

definition logEvent :: "Env \<Rightarrow> AuditEvent \<Rightarrow> string \<Rightarrow> World \<Rightarrow> World" where
  "logEvent env event projectRoot w =
     (let filePath = getLogPath env (eventTaskId event) projectRoot
      in w\<lparr>auditFiles := (auditFiles w)(filePath := auditFiles w filePath @ [event])\<rparr>)"

section \<open>Regular expressions of the classifier\<close>

datatype CharClass = word_class | space_class

datatype Regex =
    Lit string
  | Rep CharClass nat "nat option"
  | Seq "Regex list"
  | Alt "Regex list"
  | Opt Regex
  | WordBoundary
  | EndAnchor

record RegExp =
  regex :: Regex
  ignoreCase :: bool
  multiline :: bool

definition isWordChar :: "char \<Rightarrow> bool" where
  "isWordChar c =
     (let n = (of_char c :: nat)
      in (48 \<le> n \<and> n \<le> 57) \<or> (65 \<le> n \<and> n \<le> 90) \<or> n = 95 \<or> (97 \<le> n \<and> n \<le> 122))"

definition isLineTerminator :: "char \<Rightarrow> bool" where
  "isLineTerminator c = (c = CHR 0x0A \<or> c = CHR 0x0D)"

definition inClass :: "CharClass \<Rightarrow> char \<Rightarrow> bool" where
  "inClass cl c = (case cl of word_class \<Rightarrow> isWordChar c | space_class \<Rightarrow> isWhiteSpace c)"

definition canonicalize :: "bool \<Rightarrow> char \<Rightarrow> char" where
  "canonicalize ic c =
     (let n = (of_char c :: nat)
      in if ic \<and> 97 \<le> n \<and> n \<le> 122 then char_of (n - 32) else c)"

type_synonym position = "char option \<times> string"

fun litEnds :: "bool \<Rightarrow> string \<Rightarrow> position \<Rightarrow> position list" where
  "litEnds ic [] st = [st]"
| "litEnds ic (p # ps) (prev, []) = []"
| "litEnds ic (p # ps) (prev, c # cs) =
     (if canonicalize ic p = canonicalize ic c then litEnds ic ps (Some c, cs) else [])"

fun repEnds :: "CharClass \<Rightarrow> nat \<Rightarrow> nat option \<Rightarrow> position \<Rightarrow> position list" where
  "repEnds cl lo hi (prev, []) = (if lo = 0 then [(prev, [])] else [])"
| "repEnds cl lo hi (prev, c # cs) =
     (if lo = 0 then [(prev, c # cs)] else []) @
     (if inClass cl c \<and> hi \<noteq> Some 0
      then repEnds cl (lo - 1) (map_option (\<lambda>h. h - 1) hi) (Some c, cs) else [])"

definition atWordBoundary :: "position \<Rightarrow> bool" where
  "atWordBoundary st =
     ((case fst st of None \<Rightarrow> False | Some c \<Rightarrow> isWordChar c) \<noteq>
      (case snd st of [] \<Rightarrow> False | c # cs \<Rightarrow> isWordChar c))"

definition atEnd :: "bool \<Rightarrow> position \<Rightarrow> bool" where
  "atEnd ml st = (case snd st of [] \<Rightarrow> True | c # cs \<Rightarrow> ml \<and> isLineTerminator c)"

fun ends :: "bool \<Rightarrow> bool \<Rightarrow> Regex \<Rightarrow> position \<Rightarrow> position list"
  and endsSeq :: "bool \<Rightarrow> bool \<Rightarrow> Regex list \<Rightarrow> position list \<Rightarrow> position list" where
  "ends ic ml (Lit s) st = litEnds ic s st"
| "ends ic ml (Rep cl lo hi) st = repEnds cl lo hi st"
| "ends ic ml (Seq rs) st = endsSeq ic ml rs [st]"
| "ends ic ml (Alt rs) st = concat (map (\<lambda>r. ends ic ml r st) rs)"
| "ends ic ml (Opt r) st = ends ic ml r st @ [st]"
| "ends ic ml WordBoundary st = (if atWordBoundary st then [st] else [])"
| "ends ic ml EndAnchor st = (if atEnd ml st then [st] else [])"
| "endsSeq ic ml [] sts = sts"
| "endsSeq ic ml (r # rs) sts = endsSeq ic ml rs (concat (map (ends ic ml r) sts))"

fun searchFrom :: "RegExp \<Rightarrow> char option \<Rightarrow> string \<Rightarrow> bool" where
  "searchFrom re prev [] = (ends (ignoreCase re) (multiline re) (regex re) (prev, []) \<noteq> [])"
| "searchFrom re prev (c # cs) =
     (ends (ignoreCase re) (multiline re) (regex re) (prev, c # cs) \<noteq> [] \<or>
      searchFrom re (Some c) cs)"

definition test :: "RegExp \<Rightarrow> string \<Rightarrow> bool" where
  "test re s = searchFrom re None s"


section \<open>The classifier (\<^verbatim>\<open>src/agents/mock-coordinator.ts\<close>)\<close>

text \<open>A pattern \<^verbatim>\<open>/\b(w1|...|wn)\b/i\<close>, with the alternatives given as regular expressions.\<close>

definition re_i :: "Regex list \<Rightarrow> RegExp" where
  "re_i rs = \<lparr> regex = Seq rs, ignoreCase = True, multiline = False \<rparr>"

definition spaces :: Regex where
  "spaces = Rep space_class 1 None"

definition words :: "string list \<Rightarrow> Regex" where
  "words ws = Alt (map Lit ws)"

definition TECHNICAL_PATTERNS :: "RegExp list" where
  "TECHNICAL_PATTERNS =
    [\<lparr> regex = Seq [Lit ''.'', Rep word_class 1 (Some 4), EndAnchor],
       ignoreCase = False, multiline = True \<rparr>,
     re_i [WordBoundary, words [''src'', ''dist'', ''lib'', ''node_modules''], Lit ''/''],
     re_i [WordBoundary, words [''refactor'', ''refatore''], WordBoundary],
     re_i [WordBoundary, words [''endpoint'', ''route'', ''api''], WordBoundary],
     re_i [WordBoundary, words [''function'', ''method'', ''class'', ''interface'', ''module''],
           WordBoundary],
     re_i [WordBoundary,
           Alt [Lit ''bug'', Lit ''fix'', Lit ''error'', Lit ''exception'',
                Seq [Lit ''stack'', Rep space_class 0 None, Lit ''trace'']],
           WordBoundary],
     re_i [WordBoundary,
           words [''implement'', ''create'', ''add'', ''remove'', ''delete'', ''rename'', ''move''],
           spaces, Opt (Seq [Lit ''a'', spaces]),
           words [''function'', ''file'', ''endpoint'', ''route'', ''class'', ''component'',
                  ''test'']],
     re_i [WordBoundary, words [''migrate'', ''migration''], WordBoundary],
     re_i [WordBoundary, words [''import'', ''export'', ''require''], WordBoundary],
     re_i [WordBoundary, words [''npm'', ''yarn'', ''pnpm''], spaces,
           words [''install'', ''test'', ''run'', ''build''], WordBoundary],
     re_i [WordBoundary, words [''git''], spaces,
           words [''commit'', ''push'', ''pull'', ''merge'', ''rebase'', ''checkout''],
           WordBoundary],
     re_i [WordBoundary, words [''docker'', ''container''], WordBoundary],
     re_i [WordBoundary, words [''TypeScript'', ''JavaScript'', ''Python'', ''Rust'', ''Go''],
           WordBoundary]]"

definition BUSINESS_PATTERNS :: "RegExp list" where
  "BUSINESS_PATTERNS =
    [re_i [WordBoundary, words [''user'', ''customer'', ''client''], spaces,
           words [''need'', ''want'', ''experience'', ''story'', ''feedback'']],
     re_i [WordBoundary, words [''feature'', ''functionality''], spaces,
           words [''request'', ''description'', ''proposal'']],
     re_i [WordBoundary, words [''priorit'', ''roadmap'', ''strategy'', ''vision''], WordBoundary],
     re_i [WordBoundary,
           Alt [Seq [Lit ''trade'', Opt (Lit ''-''), Lit ''off''],
                Seq [Lit ''cost'', Opt (Lit ''-''), Lit ''benefit''],
                Lit ''ROI''],
           WordBoundary],
     re_i [WordBoundary,
           Alt [Lit ''stakeholder'', Lit ''requirement'',
                Seq [Lit ''acceptance'', spaces, Lit ''criteria'']],
           WordBoundary],
     re_i [WordBoundary, words [''product''], spaces,
           words [''decision'', ''direction'', ''behavior'', ''specification'']],
     re_i [WordBoundary,
           Alt [Seq [Lit ''should'', spaces, Lit ''we''],
                Seq [Lit ''do'', spaces, Lit ''we'', spaces, Lit ''need''],
                Seq [Lit ''what'', spaces, Lit ''if'']],
           WordBoundary],
     re_i [WordBoundary,
           Alt [Lit ''market'', Lit ''competitor'', Seq [Lit ''business'', spaces, Lit ''value'']],
           WordBoundary]]"

text \<open>The counting loop: \<open>count\<close> starts at 0 and grows by one per pattern that matches.\<close>

definition countMatches :: "string \<Rightarrow> RegExp list \<Rightarrow> nat" where
  "countMatches text patterns =
     foldl (\<lambda>count pattern. if test pattern text then count + 1 else count) 0 patterns"

definition categoryName :: "ClassificationCategory \<Rightarrow> string" where
  "categoryName c = (case c of technical_explicit \<Rightarrow> ''technical_explicit''
     | business \<Rightarrow> ''business'' | ambiguous \<Rightarrow> ''ambiguous'')"

definition routeName :: "Route \<Rightarrow> string" where
  "routeName r = (case r of route_product \<Rightarrow> ''product'' | route_dev \<Rightarrow> ''dev'')"

definition confidenceName :: "ClassificationConfidence \<Rightarrow> string" where
  "confidenceName c = (case c of deterministic \<Rightarrow> ''deterministic'' | heuristic \<Rightarrow> ''heuristic'')"

definition taskTypeName :: "TaskType \<Rightarrow> string" where
  "taskTypeName ty = (case ty of type_technical \<Rightarrow> ''technical'' | type_product \<Rightarrow> ''product''
     | type_ambiguous \<Rightarrow> ''ambiguous'')"

text \<open>The object spread \<^verbatim>\<open>{ ...result }\<close>.\<close>

definition resultFields :: "ClassificationResult \<Rightarrow> (string \<times> jsval) list" where
  "resultFields r =
     [(''category'', V_string (categoryName (category r))),
      (''routedTo'', V_string (routeName (routedTo r))),
      (''confidence'', V_string (confidenceName (confidence r))),
      (''ruleApplied'', V_string (ruleApplied r))]"

definition classify :: "Env \<Rightarrow> Task \<Rightarrow> string \<Rightarrow> World \<Rightarrow> ClassificationResult \<times> World" where
  "classify env t projectRoot w =
     (case taskType t of
        Some ty \<Rightarrow>
          (let r = (if ty = type_technical
                    then \<lparr> category = technical_explicit, routedTo = route_dev,
                           confidence = deterministic,
                           ruleApplied = ''Rule 1 - Operator type: technical'' \<rparr>
                    else \<lparr> category = (if ty = type_product then business else ambiguous),
                           routedTo = route_product, confidence = deterministic,
                           ruleApplied = ''Rule 1 - Operator type: '' @ taskTypeName ty \<rparr>);
               (now, w1) = Date_now env w
           in (r, logEvent env
                    \<lparr> timestamp = now, eventTaskId = taskId t, eventType = ''classification'',
                      eventAgentId = None,
                      eventData = resultFields r @ [(''source'', V_string ''operator_type'')] \<rparr>
                    projectRoot w1))
      | None \<Rightarrow>
          (let technicalScore = countMatches (body t) TECHNICAL_PATTERNS;
               businessScore = countMatches (body t) BUSINESS_PATTERNS;
               r = (if technicalScore > 0 \<and> technicalScore > businessScore
                    then \<lparr> category = technical_explicit, routedTo = route_dev,
                           confidence = heuristic,
                           ruleApplied = ''Rule 2 - Technical Explicit'' \<rparr>
                    else if businessScore > 0 \<and> businessScore \<ge> technicalScore
                    then \<lparr> category = business, routedTo = route_product,
                           confidence = heuristic,
                           ruleApplied = ''Rule 2 - Business / Strategic'' \<rparr>
                    else \<lparr> category = ambiguous, routedTo = route_product,
                           confidence = heuristic,
                           ruleApplied = ''Rule 2 - Ambiguous (default to Product)'' \<rparr>);
               (now, w1) = Date_now env w
           in (r, logEvent env
                    \<lparr> timestamp = now, eventTaskId = taskId t, eventType = ''classification'',
                      eventAgentId = None,
                      eventData = resultFields r @
                        [(''source'', V_string ''keyword_matching''),
                         (''technicalScore'', V_number (int technicalScore)),
                         (''businessScore'', V_number (int businessScore))] \<rparr>
                    projectRoot w1)))"

section \<open>The mock agents (\<^verbatim>\<open>src/agents\<close>)\<close>

text \<open>The em dash in one out-of-scope entry of the product agent's spec (U+2014, not a
  code unit below 256) is written as its three UTF-8 bytes.\<close>

definition generateSpecId :: "Env \<Rightarrow> World \<Rightarrow> string \<times> World" where
  "generateSpecId env w =
     (let (bytes, w1) = randomBytes env 4 w;
          (now, w2) = Date_now env w1
      in (''spec-'' @ decimal now @ ''-'' @ toHex bytes, w2))"

definition executeProduct ::
  "Env \<Rightarrow> Task \<Rightarrow> ClassificationResult \<Rightarrow> string \<Rightarrow> string \<Rightarrow> World \<Rightarrow> IntentSpec \<times> World" where
  "executeProduct env t cl ident projectRoot w =
     (let (started, w1) = Date_now env w;
          w2 = logEvent env
                 \<lparr> timestamp = started, eventTaskId = taskId t,
                   eventType = ''agent_execution_start'', eventAgentId = Some ident,
                   eventData = [(''role'', V_string ''product'')] \<rparr> projectRoot w1;
          (sid, w3) = generateSpecId env w2;
          spec =
            \<lparr> specId = sid, specTaskId = taskId t,
              objective = ''Create a TypeScript function that returns a greeting string.'',
              requirements =
                [\<lparr> requirement_id = ''REQ-001'',
                   requirement_description =
                     ''A function named '' @ [CHR 0x22] @ ''greet'' @ [CHR 0x22] @
                     '' must exist and accept a single string parameter '' @
                     [CHR 0x22] @ ''name'' @ [CHR 0x22] @ ''.'',
                   verification =
                     ''File contains an exported function with signature: greet(name: string): string.'' \<rparr>,
                 \<lparr> requirement_id = ''REQ-002'',
                   requirement_description =
                     ''The function must return a string in the format '' @
                     [CHR 0x22] @ ''Hello, {name}!'' @ [CHR 0x22] @ ''.'',
                   verification =
                     ''Calling greet('' @ [CHR 0x22] @ ''World'' @ [CHR 0x22] @
                     '') returns exactly '' @ [CHR 0x22] @ ''Hello, World!'' @ [CHR 0x22] @ ''.'' \<rparr>],
              constraints =
                [\<lparr> constraint_id = ''CON-001'',
                   constraint_description =
                     ''The function must not perform I/O, network calls, or access the filesystem.'' \<rparr>],
              outOfScope =
                [''Internationalization or locale-specific greetings.'',
                 ''Input validation beyond what TypeScript types enforce.'',
                 ''Unit test files '' @ [CHR 0xE2, CHR 0x80, CHR 0x94] @
                 '' testing is a separate task.''],
              assumptions =
                [\<lparr> assumption_id = ''ASM-001'',
                   statement = ''The target runtime supports ES2022 or later.'',
                   source = ''operator_input'' \<rparr>],
              contextRefs = [] \<rparr>;
          (ended, w4) = Date_now env w3;
          w5 = logEvent env
                 \<lparr> timestamp = ended, eventTaskId = taskId t,
                   eventType = ''agent_execution_end'', eventAgentId = Some ident,
                   eventData = [(''role'', V_string ''product''), (''specId'', V_string sid)] \<rparr>
                 projectRoot w4
      in (spec, w5))"

definition executeDev ::
  "Env \<Rightarrow> IntentSpec \<Rightarrow> string \<Rightarrow> string \<Rightarrow> World \<Rightarrow> DevOutput \<times> World" where
  "executeDev env spec ident projectRoot w =
     (let (now, w1) = Date_now env w;
          w2 = logEvent env
                 \<lparr> timestamp = now, eventTaskId = specTaskId spec,
                   eventType = ''agent_execution_start'', eventAgentId = Some ident,
                   eventData = [(''role'', V_string ''dev''), (''specId'', V_string (specId spec))] \<rparr>
                 projectRoot w1;
          out =
            completed (specTaskId spec) (specId spec)
              [\<lparr> artifactPath = ''src/greet.ts'',
                 artifactContent =
                   join ''\<newline>''
                     [''export function greet(name: string): string {'',
                      ''  return `Hello, ${name}!`;'',
                      ''}'',
                      []],
                 artifactType = ''source'' \<rparr>]
              [\<lparr> invocationTool = ''write'',
                 invocationArgs = [(''path'', V_string ''src/greet.ts'')],
                 invocationResult = ''File written successfully.'',
                 invocationTimestamp = now \<rparr>,
               \<lparr> invocationTool = ''tsc'',
                 invocationArgs =
                   [(''flags'', V_array [V_string ''--noEmit'', V_string ''src/greet.ts''])],
                 invocationResult = ''No errors found.'',
                 invocationTimestamp = now \<rparr>];
          (ended, w3) = Date_now env w2;
          w4 = logEvent env
                 \<lparr> timestamp = ended, eventTaskId = specTaskId spec,
                   eventType = ''agent_execution_end'', eventAgentId = Some ident,
                   eventData =
                     [(''role'', V_string ''dev''), (''specId'', V_string (specId spec)),
                      (''status'', V_string ''completed''),
                      (''artifactCount'', V_number (int (length (artifacts out))))] \<rparr>
                 projectRoot w3
      in (out, w4))"

definition verdictName :: "Verdict \<Rightarrow> string" where
  "verdictName v = (case v of pass \<Rightarrow> ''pass'' | fail \<Rightarrow> ''fail'')"

definition summaryValue :: "ValidationSummary \<Rightarrow> jsval" where
  "summaryValue s =
     V_object
       [(''totalRequirements'', V_number (int (totalRequirements s))),
        (''passedRequirements'', V_number (int (passedRequirements s))),
        (''failedRequirements'', V_number (int (failedRequirements s))),
        (''totalConstraints'', V_number (int (totalConstraints s))),
        (''violatedConstraints'', V_number (int (violatedConstraints s))),
        (''scopeViolationCount'', V_number (int (scopeViolationCount s)))]"

definition executeQA ::
  "Env \<Rightarrow> IntentSpec \<Rightarrow> DevOutput \<Rightarrow> string \<Rightarrow> string \<Rightarrow> World \<Rightarrow> ValidationReport \<times> World" where
  "executeQA env spec out ident projectRoot w =
     (let (started, w1) = Date_now env w;
          w2 = logEvent env
                 \<lparr> timestamp = started, eventTaskId = specTaskId spec,
                   eventType = ''agent_execution_start'', eventAgentId = Some ident,
                   eventData = [(''role'', V_string ''qa''), (''specId'', V_string (specId spec))] \<rparr>
                 projectRoot w1;
          reqResults =
            map (\<lambda>req. \<lparr> requirementId = requirement_id req,
                          requirementStatus = pass,
                          requirementEvidence =
                            ''Verified in artifact. Requirement '' @ [CHR 0x22] @
                            requirement_id req @ [CHR 0x22] @ '' satisfied.'',
                          verificationMethod = verification req \<rparr>)
                (requirements spec);
          conResults =
            map (\<lambda>con. \<lparr> constraintId = constraint_id con,
                          constraintStatus = pass,
                          constraintEvidence =
                            ''No violation detected. Constraint '' @ [CHR 0x22] @
                            constraint_id con @ [CHR 0x22] @ '' respected.'' \<rparr>)
                (constraints spec);
          passedReqs = length reqResults;
          failedReqs = 0;
          violatedCons = 0;
          report =
            \<lparr> reportTaskId = specTaskId spec, reportSpecId = specId spec, verdict = pass,
              requirementResults = reqResults, constraintResults = conResults,
              scopeViolations = [],
              summary =
                \<lparr> totalRequirements = length reqResults, passedRequirements = passedReqs,
                  failedRequirements = failedReqs, totalConstraints = length conResults,
                  violatedConstraints = violatedCons, scopeViolationCount = 0 \<rparr> \<rparr>;
          (ended, w3) = Date_now env w2;
          w4 = logEvent env
                 \<lparr> timestamp = ended, eventTaskId = specTaskId spec,
                   eventType = ''agent_execution_end'', eventAgentId = Some ident,
                   eventData =
                     [(''role'', V_string ''qa''), (''specId'', V_string (specId spec)),
                      (''verdict'', V_string (verdictName (verdict report))),
                      (''summary'', summaryValue (summary report))] \<rparr>
                 projectRoot w3
      in (report, w4))"

section \<open>The orchestrator (\<^verbatim>\<open>src/core/orchestrator.ts\<close>)\<close>

text \<open>The orchestrator has its own \<^verbatim>\<open>generateAgentId\<close>, which takes the role as a string
  and draws the random suffix before it reads the clock.\<close>

definition orchestratorAgentId :: "Env \<Rightarrow> string \<Rightarrow> World \<Rightarrow> string \<times> World" where
  "orchestratorAgentId env r w =
     (let (bytes, w1) = randomBytes env 2 w;
          (now, w2) = Date_now env w1
      in (r @ ''-'' @ decimal now @ ''-'' @ toHex bytes, w2))"

definition logSpawn :: "Env \<Rightarrow> string \<Rightarrow> string \<Rightarrow> string \<Rightarrow> string \<Rightarrow> World \<Rightarrow> World" where
  "logSpawn env tid ident r projectRoot w =
     (let (now, w1) = Date_now env w
      in logEvent env
           \<lparr> timestamp = now, eventTaskId = tid, eventType = ''agent_spawned'',
             eventAgentId = Some ident, eventData = [(''role'', V_string r)] \<rparr> projectRoot w1)"

definition logDestroy :: "Env \<Rightarrow> string \<Rightarrow> string \<Rightarrow> string \<Rightarrow> string \<Rightarrow> World \<Rightarrow> World" where
  "logDestroy env tid ident r projectRoot w =
     (let (now, w1) = Date_now env w
      in logEvent env
           \<lparr> timestamp = now, eventTaskId = tid, eventType = ''agent_destroyed'',
             eventAgentId = Some ident, eventData = [(''role'', V_string r)] \<rparr> projectRoot w1)"

definition buildInlineSpec :: "Env \<Rightarrow> Task \<Rightarrow> World \<Rightarrow> IntentSpec \<times> World" where
  "buildInlineSpec env t w =
     (let (sid, w1) = generateSpecId env w
      in (\<lparr> specId = sid, specTaskId = taskId t, objective = body t,
            requirements =
              [\<lparr> requirement_id = ''REQ-001'', requirement_description = body t,
                 verification = ''Implementation satisfies the task description as stated.'' \<rparr>],
            constraints = [],
            outOfScope = [''Anything not explicitly stated in the task description.''],
            assumptions =
              [\<lparr> assumption_id = ''ASM-001'',
                 statement =
                   ''The task description is a complete, unambiguous technical instruction.'',
                 source = ''operator_input'' \<rparr>],
            contextRefs = [] \<rparr>, w1))"

text \<open>The two branches of step 2 of \<open>run\<close>: the product agent, or the inline spec.\<close>

definition productBranch ::
  "Env \<Rightarrow> Task \<Rightarrow> ClassificationResult \<Rightarrow> string \<Rightarrow> World \<Rightarrow> IntentSpec \<times> World" where
  "productBranch env t cl projectRoot w =
     (let (productId, w1) = orchestratorAgentId env ''product'' w;
          w2 = logSpawn env (taskId t) productId ''product'' projectRoot w1;
          (spec, w3) = executeProduct env t cl productId projectRoot w2
      in (spec, logDestroy env (taskId t) productId ''product'' projectRoot w3))"

definition inlineBranch ::
  "Env \<Rightarrow> Task \<Rightarrow> ClassificationResult \<Rightarrow> string \<Rightarrow> World \<Rightarrow> IntentSpec \<times> World" where
  "inlineBranch env t cl projectRoot w =
     (let (spec, w1) = buildInlineSpec env t w;
          (now, w2) = Date_now env w1
      in (spec, logEvent env
                  \<lparr> timestamp = now, eventTaskId = taskId t,
                    eventType = ''product_skipped'', eventAgentId = None,
                    eventData =
                      [(''reason'', V_string ''Classification routed directly to dev. Technical input does not require disambiguation.''),
                       (''category'', V_string (categoryName (category cl))),
                       (''ruleApplied'', V_string (ruleApplied cl)),
                       (''inlineSpecId'', V_string (specId spec))] \<rparr>
                  projectRoot w2))"

definition run :: "Env \<Rightarrow> Task \<Rightarrow> string \<Rightarrow> World \<Rightarrow> ExecutionResult \<times> World" where
  "run env t projectRoot w =
     (let (started, w1) = Date_now env w;
          w2 = logEvent env
                 \<lparr> timestamp = started, eventTaskId = taskId t,
                   eventType = ''execution_start'', eventAgentId = None,
                   eventData = [(''body'', V_string (body t))] \<rparr> projectRoot w1;
          (coordinatorId, w3) = orchestratorAgentId env ''coordinator'' w2;
          w4 = logSpawn env (taskId t) coordinatorId ''coordinator'' projectRoot w3;
          (cl, w5) = classify env t projectRoot w4;
          w6 = logDestroy env (taskId t) coordinatorId ''coordinator'' projectRoot w5;
          (spec, w7) = (if routedTo cl = route_product
                        then productBranch env t cl projectRoot w6
                        else inlineBranch env t cl projectRoot w6);
          (devId, w8) = orchestratorAgentId env ''dev'' w7;
          w9 = logSpawn env (taskId t) devId ''dev'' projectRoot w8;
          (out, w10) = executeDev env spec devId projectRoot w9;
          w11 = logDestroy env (taskId t) devId ''dev'' projectRoot w10;
          (qaId, w12) = orchestratorAgentId env ''qa'' w11;
          w13 = logSpawn env (taskId t) qaId ''qa'' projectRoot w12;
          (report, w14) = executeQA env spec out qaId projectRoot w13;
          w15 = logDestroy env (taskId t) qaId ''qa'' projectRoot w14;
          (ended, w16) = Date_now env w15;
          w17 = logEvent env
                  \<lparr> timestamp = ended, eventTaskId = taskId t,
                    eventType = ''execution_end'', eventAgentId = None,
                    eventData =
                      [(''verdict'', V_string (verdictName (verdict report))),
                       (''summary'', summaryValue (summary report))] \<rparr> projectRoot w16
      in (\<lparr> resultTaskId = taskId t, classification = cl, intentSpec = spec,
            devOutput = out, validation = report \<rparr>, w17))"

text \<open>
  Whether the agent spawned at index \<open>i\<close> of an event stream is destroyed exactly once in
  the stream, and later than it is spawned.
\<close>

definition destroyedOnceAfter :: "AuditEvent list \<Rightarrow> nat \<Rightarrow> bool" where
  "destroyedOnceAfter es i =
     (let ds = filter (\<lambda>j. eventType (es ! j) = ''agent_destroyed'' \<and>
                            eventAgentId (es ! j) = eventAgentId (es ! i)) [0..<length es]
      in length ds = 1 \<and> i < hd ds)"

definition spawnsMatched :: "AuditEvent list \<Rightarrow> bool" where
  "spawnsMatched es =
     list_all (\<lambda>i. eventType (es ! i) = ''agent_spawned'' \<longrightarrow>
                    eventAgentId (es ! i) \<noteq> None \<and> destroyedOnceAfter es i)
              [0..<length es]"

text \<open>The audit file at \<open>filePath\<close> grows by the events \<open>es\<close> from world \<open>w\<close> to world
  \<open>w'\<close>, and no other audit file changes.\<close>

definition appends :: "string \<Rightarrow> World \<Rightarrow> World \<Rightarrow> AuditEvent list \<Rightarrow> bool" where
  "appends filePath w w' es =
     (auditFiles w' = (auditFiles w)(filePath := auditFiles w filePath @ es))"

definition techTask :: Task where
  "techTask = \<lparr> taskId = ''task-1'', taskType = None, body = ''Refactor login.ts'',
                contextRegistry = [] \<rparr>"

definition tieTask :: Task where
  "tieTask = \<lparr> taskId = ''task-2'', taskType = None, body = ''Fix the roadmap'',
               contextRegistry = [] \<rparr>"

definition vagueTask :: Task where
  "vagueTask = \<lparr> taskId = ''task-3'', taskType = None, body = ''Make it better'',
                 contextRegistry = [] \<rparr>"


section \<open>JSON values and \<^verbatim>\<open>JSON.parse\<close>\<close>

text \<open>
  A JSON value. A string carries the text between its quotes as written (escape sequences
  are not decoded) and a number carries its literal: the JavaScript string and the double
  they denote are functions of these.  \<open>JNull\<close> is the JavaScript value \<^verbatim>\<open>null\<close>.
\<close>

datatype json =
    JNull
  | JBool bool
  | JNumber string
  | JString string
  | JArray "json list"
  | JObject "(string \<times> json) list"

datatype token =
    T_LBrace | T_RBrace | T_LBracket | T_RBracket | T_Colon | T_Comma
  | T_String string | T_Number string | T_Word string

definition isDigit :: "char \<Rightarrow> bool" where
  "isDigit c = (let n = (of_char c :: nat) in 48 \<le> n \<and> n \<le> 57)"

definition isHexDigit :: "char \<Rightarrow> bool" where
  "isHexDigit c =
     (let n = (of_char c :: nat)
      in (48 \<le> n \<and> n \<le> 57) \<or> (65 \<le> n \<and> n \<le> 70) \<or> (97 \<le> n \<and> n \<le> 102))"

definition isLower :: "char \<Rightarrow> bool" where
  "isLower c = (let n = (of_char c :: nat) in 97 \<le> n \<and> n \<le> 122)"

text \<open>The white space of the JSON grammar: space, tab, line feed, carriage return.\<close>

definition isJsonSpace :: "char \<Rightarrow> bool" where
  "isJsonSpace c = (c = CHR 0x20 \<or> c = CHR 0x09 \<or> c = CHR 0x0A \<or> c = CHR 0x0D)"

definition isNumberChar :: "char \<Rightarrow> bool" where
  "isNumberChar c = (isDigit c \<or> c = CHR ''-'' \<or> c = CHR ''+'' \<or> c = CHR ''.'' \<or>
                     c = CHR ''e'' \<or> c = CHR ''E'')"

text \<open>The number grammar: \<^verbatim>\<open>-?(0|[1-9][0-9]*)(\.[0-9]+)?([eE][+-]?[0-9]+)?\<close>.\<close>

definition intPart :: "string \<Rightarrow> string option" where
  "intPart s =
     (case s of
        [] \<Rightarrow> None
      | c # r \<Rightarrow> if c = CHR ''0'' then Some r
                 else if isDigit c then Some (dropWhile isDigit r) else None)"

definition fracPart :: "string \<Rightarrow> string option" where
  "fracPart s =
     (case s of
        [] \<Rightarrow> Some []
      | c # r \<Rightarrow> if c = CHR ''.''
                 then (case r of [] \<Rightarrow> None
                       | d # r' \<Rightarrow> if isDigit d then Some (dropWhile isDigit r') else None)
                 else Some s)"

definition expPart :: "string \<Rightarrow> bool" where
  "expPart s =
     (case s of
        [] \<Rightarrow> True
      | c # r \<Rightarrow> (c = CHR ''e'' \<or> c = CHR ''E'') \<and>
                 (let ds = (case r of [] \<Rightarrow> []
                            | x # r' \<Rightarrow> if x = CHR ''+'' \<or> x = CHR ''-'' then r' else r)
                  in ds \<noteq> [] \<and> list_all isDigit ds))"

definition validNumber :: "string \<Rightarrow> bool" where
  "validNumber s =
     (case intPart (case s of [] \<Rightarrow> [] | c # r \<Rightarrow> if c = CHR ''-'' then r else s) of
        None \<Rightarrow> False
      | Some r1 \<Rightarrow> (case fracPart r1 of None \<Rightarrow> False | Some r2 \<Rightarrow> expPart r2))"

datatype lexState =
    L_idle
  | L_string string
  | L_escape string
  | L_unicode nat string
  | L_number string
  | L_word string

text \<open>The token that ends a number or a literal name, when the character may follow a
  value at all.\<close>

definition afterValue :: "char \<Rightarrow> token list option" where
  "afterValue c =
     (if isJsonSpace c then Some []
      else if c = CHR '','' then Some [T_Comma]
      else if c = CHR '']'' then Some [T_RBracket]
      else if c = CHR ''}'' then Some [T_RBrace]
      else None)"

definition emit :: "token list \<Rightarrow> token list option \<Rightarrow> token list option" where
  "emit ts r = map_option (\<lambda>rest. ts @ rest) r"

fun lex :: "lexState \<Rightarrow> string \<Rightarrow> token list option" where
  "lex L_idle [] = Some []"
| "lex (L_string acc) [] = None"
| "lex (L_escape acc) [] = None"
| "lex (L_unicode n acc) [] = None"
| "lex (L_number acc) [] = (if validNumber (rev acc) then Some [T_Number (rev acc)] else None)"
| "lex (L_word acc) [] = Some [T_Word (rev acc)]"
| "lex L_idle (c # cs) =
     (if isJsonSpace c then lex L_idle cs
      else if c = CHR ''{'' then emit [T_LBrace] (lex L_idle cs)
      else if c = CHR ''}'' then emit [T_RBrace] (lex L_idle cs)
      else if c = CHR ''['' then emit [T_LBracket] (lex L_idle cs)
      else if c = CHR '']'' then emit [T_RBracket] (lex L_idle cs)
      else if c = CHR '':'' then emit [T_Colon] (lex L_idle cs)
      else if c = CHR '','' then emit [T_Comma] (lex L_idle cs)
      else if c = CHR 0x22 then lex (L_string []) cs
      else if c = CHR ''-'' \<or> isDigit c then lex (L_number [c]) cs
      else if isLower c then lex (L_word [c]) cs
      else None)"
| "lex (L_string acc) (c # cs) =
     (if c = CHR 0x22 then emit [T_String (rev acc)] (lex L_idle cs)
      else if c = CHR 0x5C then lex (L_escape (c # acc)) cs
      else if (of_char c :: nat) < 32 then None
      else lex (L_string (c # acc)) cs)"
| "lex (L_escape acc) (c # cs) =
     (if c = CHR 0x22 \<or> c = CHR 0x5C \<or> c = CHR ''/'' \<or> c = CHR ''b'' \<or> c = CHR ''f'' \<or>
         c = CHR ''n'' \<or> c = CHR ''r'' \<or> c = CHR ''t''
      then lex (L_string (c # acc)) cs
      else if c = CHR ''u'' then lex (L_unicode 4 (c # acc)) cs
      else None)"
| "lex (L_unicode n acc) (c # cs) =
     (if isHexDigit c
      then (if n \<le> 1 then lex (L_string (c # acc)) cs else lex (L_unicode (n - 1) (c # acc)) cs)
      else None)"
| "lex (L_number acc) (c # cs) =
     (if isNumberChar c then lex (L_number (c # acc)) cs
      else if validNumber (rev acc)
      then (case afterValue c of None \<Rightarrow> None
            | Some ts \<Rightarrow> emit (T_Number (rev acc) # ts) (lex L_idle cs))
      else None)"
| "lex (L_word acc) (c # cs) =
     (if isLower c then lex (L_word (c # acc)) cs
      else (case afterValue c of None \<Rightarrow> None
            | Some ts \<Rightarrow> emit (T_Word (rev acc) # ts) (lex L_idle cs)))"

datatype frame =
    F_array "json list"
  | F_object "(string \<times> json) list"
  | F_member "(string \<times> json) list" string

datatype parseState =
    P_value | P_first_element | P_first_key | P_key | P_colon string | P_after json

datatype valueStart = Scalar json | OpenArray | OpenObject | NoValue

definition startValue :: "token \<Rightarrow> valueStart" where
  "startValue t =
     (case t of
        T_String s \<Rightarrow> Scalar (JString s)
      | T_Number n \<Rightarrow> Scalar (JNumber n)
      | T_Word w \<Rightarrow> if w = ''null'' then Scalar JNull
                     else if w = ''true'' then Scalar (JBool True)
                     else if w = ''false'' then Scalar (JBool False)
                     else NoValue
      | T_LBracket \<Rightarrow> OpenArray
      | T_LBrace \<Rightarrow> OpenObject
      | _ \<Rightarrow> NoValue)"

fun parseTokens :: "parseState \<Rightarrow> frame list \<Rightarrow> token list \<Rightarrow> json option" where
  "parseTokens st stack [] = (case st of P_after v \<Rightarrow> if stack = [] then Some v else None
                               | _ \<Rightarrow> None)"
| "parseTokens P_value stack (t # ts) =
     (case startValue t of
        Scalar v \<Rightarrow> parseTokens (P_after v) stack ts
      | OpenArray \<Rightarrow> parseTokens P_first_element (F_array [] # stack) ts
      | OpenObject \<Rightarrow> parseTokens P_first_key (F_object [] # stack) ts
      | NoValue \<Rightarrow> None)"
| "parseTokens P_first_element stack (t # ts) =
     (if t = T_RBracket then parseTokens (P_after (JArray [])) (tl stack) ts
      else (case startValue t of
              Scalar v \<Rightarrow> parseTokens (P_after v) stack ts
            | OpenArray \<Rightarrow> parseTokens P_first_element (F_array [] # stack) ts
            | OpenObject \<Rightarrow> parseTokens P_first_key (F_object [] # stack) ts
            | NoValue \<Rightarrow> None))"
| "parseTokens P_first_key stack (t # ts) =
     (case t of
        T_RBrace \<Rightarrow> parseTokens (P_after (JObject [])) (tl stack) ts
      | T_String k \<Rightarrow> parseTokens (P_colon k) stack ts
      | _ \<Rightarrow> None)"
| "parseTokens P_key stack (t # ts) =
     (case t of T_String k \<Rightarrow> parseTokens (P_colon k) stack ts | _ \<Rightarrow> None)"
| "parseTokens (P_colon k) stack (t # ts) =
     (case (t, stack) of
        (T_Colon, F_object ms # rest) \<Rightarrow> parseTokens P_value (F_member ms k # rest) ts
      | _ \<Rightarrow> None)"
| "parseTokens (P_after v) stack (t # ts) =
     (case stack of
        F_array xs # rest \<Rightarrow>
          (if t = T_Comma then parseTokens P_value (F_array (v # xs) # rest) ts
           else if t = T_RBracket then parseTokens (P_after (JArray (rev (v # xs)))) rest ts
           else None)
      | F_member ms k # rest \<Rightarrow>
          (if t = T_Comma then parseTokens P_key (F_object ((k, v) # ms) # rest) ts
           else if t = T_RBrace
           then parseTokens (P_after (JObject (rev ((k, v) # ms)))) rest ts
           else None)
      | _ \<Rightarrow> None)"

text \<open>\<^verbatim>\<open>JSON.parse\<close>; \<open>None\<close> when it throws a \<^verbatim>\<open>SyntaxError\<close>.\<close>

definition JSON_parse :: "string \<Rightarrow> json option" where
  "JSON_parse s = (case lex L_idle s of None \<Rightarrow> None | Some ts \<Rightarrow> parseTokens P_value [] ts)"

section \<open>The response parser (\<^verbatim>\<open>src/core/llm/parser.ts\<close>)\<close>

datatype ParseErrorKind = invalid_json | schema_mismatch

record ParseError =
  raw :: string
  message :: string
  errorKind :: ParseErrorKind

datatype ParseResult = parsed json | rejected ParseError

text \<open>Strategy 1. The function returns \<^verbatim>\<open>null\<close> when \<^verbatim>\<open>JSON.parse\<close> throws, and also when
  the text is the JSON literal \<^verbatim>\<open>null\<close>.\<close>

definition tryDirectParse :: "string \<Rightarrow> json" where
  "tryDirectParse s = (case JSON_parse s of Some v \<Rightarrow> v | None \<Rightarrow> JNull)"

text \<open>The first occurrence of \<open>needle\<close>: the text before it and the text after it.\<close>

fun splitAtFirst :: "string \<Rightarrow> string \<Rightarrow> (string \<times> string) option" where
  "splitAtFirst needle [] = (if needle = [] then Some ([], []) else None)"
| "splitAtFirst needle (c # cs) =
     (if prefix needle (c # cs) then Some ([], drop (length needle) (c # cs))
      else map_option (\<lambda>(before, after). (c # before, after)) (splitAtFirst needle cs))"

text \<open>
  Strategy 2. The capture group of \<^verbatim>\<open>/```(?:json)?\s*\n?([\s\S]*?)```/\<close>: the match starts
  at the first fence that has a fence after it; the language tag and the white space
  behind the opening fence are consumed greedily; the lazy group ends at the next fence.
  \<open>None\<close> when the expression does not match.
\<close>

definition codeFenceCapture :: "string \<Rightarrow> string option" where
  "codeFenceCapture s =
     (case splitAtFirst ''```'' s of
        None \<Rightarrow> None
      | Some (before, r) \<Rightarrow>
          (let r1 = (if prefix ''json'' r then drop 4 r else r);
               r2 = dropWhile isWhiteSpace r1
           in map_option fst (splitAtFirst ''```'' r2)))"

definition tryCodeFenceParse :: "string \<Rightarrow> json" where
  "tryCodeFenceParse s =
     (case codeFenceCapture s of
        None \<Rightarrow> JNull
      | Some capture \<Rightarrow> if capture = [] then JNull else tryDirectParse (trim capture))"

text \<open>\<^verbatim>\<open>String.prototype.indexOf\<close> for one character; \<open>None\<close> is \<^verbatim>\<open>-1\<close>.\<close>

fun indexOf :: "char \<Rightarrow> string \<Rightarrow> nat option" where
  "indexOf c [] = None"
| "indexOf c (x # xs) = (if x = c then Some 0 else map_option Suc (indexOf c xs))"

text \<open>
  The loop of strategy 3 over the characters from index \<open>i\<close> on, with the depth counter and
  the flags \<open>inString\<close> and \<open>escaped\<close>: the index at which the depth is 0, or \<open>None\<close> when
  the text ends first.
\<close>

fun scanDepth :: "char \<Rightarrow> char \<Rightarrow> string \<Rightarrow> nat \<Rightarrow> int \<Rightarrow> bool \<Rightarrow> bool \<Rightarrow> nat option" where
  "scanDepth opn cls [] i depth inString escaped = None"
| "scanDepth opn cls (ch # rest) i depth inString escaped =
     (if escaped then scanDepth opn cls rest (i + 1) depth inString False
      else if ch = CHR 0x5C then scanDepth opn cls rest (i + 1) depth inString True
      else if ch = CHR 0x22 then scanDepth opn cls rest (i + 1) depth (\<not> inString) False
      else if inString then scanDepth opn cls rest (i + 1) depth inString False
      else (let d1 = (if ch = opn then depth + 1 else depth);
                d2 = (if ch = cls then d1 - 1 else d1)
            in if d2 = 0 then Some i else scanDepth opn cls rest (i + 1) d2 False False))"

text \<open>\<^verbatim>\<open>raw.slice(a, b)\<close> for \<open>0 \<le> a \<le> b\<close>.\<close>

definition slice :: "string \<Rightarrow> nat \<Rightarrow> nat \<Rightarrow> string" where
  "slice s a b = take (b - a) (drop a s)"

text \<open>The slice that strategy 3 hands to \<^verbatim>\<open>JSON.parse\<close>; \<open>None\<close> where it returns \<^verbatim>\<open>null\<close>
  without parsing.\<close>

definition bracketSlice :: "string \<Rightarrow> string option" where
  "bracketSlice s =
     (let startObj = indexOf (CHR ''{'') s;
          startArr = indexOf (CHR ''['') s
      in if startObj = None \<and> startArr = None then None
         else (let (start, opn, cls) =
                     (if startArr = None \<or> (startObj \<noteq> None \<and> the startObj < the startArr)
                      then (the startObj, CHR ''{'', CHR ''}'')
                      else (the startArr, CHR ''['', CHR '']''))
               in case scanDepth opn cls (drop start s) start 0 False False of
                    None \<Rightarrow> None
                  | Some i \<Rightarrow> Some (slice s start (i + 1))))"

definition tryBracketExtract :: "string \<Rightarrow> json" where
  "tryBracketExtract s = (case bracketSlice s of None \<Rightarrow> JNull | Some t \<Rightarrow> tryDirectParse t)"

text \<open>The operator \<^verbatim>\<open>??\<close>.\<close>

definition orElse :: "json \<Rightarrow> json \<Rightarrow> json" where
  "orElse a b = (if a = JNull then b else a)"

text \<open>The validator is a function of the caller (\<^verbatim>\<open>(obj: unknown) => obj is T\<close>): applied to
  a value it returns a boolean or throws. The call \<^verbatim>\<open>validate(parsed)\<close> stands outside any
  \<^verbatim>\<open>try\<close>, so what the validator throws leaves \<open>parseJSON\<close>.\<close>

definition parseJSON :: "string \<Rightarrow> (json \<Rightarrow> 'e + bool) \<Rightarrow> 'e + ParseResult" where
  "parseJSON text validate =
     (let trimmed = trim text;
          value = orElse (tryDirectParse trimmed)
                    (orElse (tryCodeFenceParse trimmed) (tryBracketExtract trimmed))
      in if value = JNull
         then Inr (rejected \<lparr> raw = text,
                               message = ''Failed to extract valid JSON from LLM response.'',
                               errorKind = invalid_json \<rparr>)
         else (case validate value of
                 Inl thrown \<Rightarrow> Inl thrown
               | Inr accepted \<Rightarrow>
                   if \<not> accepted
                   then Inr (rejected \<lparr> raw = text,
                                         message = ''JSON parsed successfully but does not match expected schema.'',
                                         errorKind = schema_mismatch \<rparr>)
                   else Inr (parsed value)))"

subsection \<open>Serialized JSON\<close>





text \<open>A type guard that returns for every value, as the guards of
  \<^verbatim>\<open>src/core/llm/prompt-loader.ts\<close> do: a validator that never throws.\<close>

definition typeGuard :: "(json \<Rightarrow> bool) \<Rightarrow> json \<Rightarrow> js_error + bool" where
  "typeGuard p v = Inr (p v)"

text \<open>\<^verbatim>\<open>(obj): obj is unknown => true\<close>\<close>

definition acceptAny :: "json \<Rightarrow> bool" where
  "acceptAny v = True"

text \<open>\<^verbatim>\<open>isObject\<close> of \<^verbatim>\<open>src/core/llm/prompt-loader.ts\<close>:
  \<^verbatim>\<open>typeof v === 'object' && v !== null && !Array.isArray(v)\<close>.\<close>

definition isObject :: "json \<Rightarrow> bool" where
  "isObject v = (case v of JObject ms \<Rightarrow> True | _ \<Rightarrow> False)"

text \<open>An asserting validator:
  \<^verbatim>\<open>(obj) => { if (!isObject(obj)) throw new TypeError('not an object'); return true; }\<close>\<close>

definition assertObject :: "json \<Rightarrow> js_error + bool" where
  "assertObject v = (if isObject v then Inr True else Inl TypeError)"





definition noiseText :: string where
  "noiseText = ''I could not produce an answer.''"

definition arrayText :: string where
  "arrayText = ''  [1,2] ''"

chapter \<open>Properties\<close>

section \<open>Scope resolution\<close>

lemma keepTool_network:
  "keepTool perms t = Inr True \<Longrightarrow> allowNetwork perms = NetBool False \<Longrightarrow>
   \<not> hasCapability t network"
  by (auto simp: keepTool_def hasCapability_def array_includes_def Let_def
      split: option.splits PropertyValue.splits if_splits sum.splits bool.splits)

lemma keepTool_total:
  "TOOL_CAPABILITY_MAP t \<noteq> Some inheritedMember \<Longrightarrow> \<exists>b. keepTool perms t = Inr b"
  by (auto simp: keepTool_def array_includes_def Let_def
      split: option.splits PropertyValue.splits if_splits sum.splits bool.splits)

text \<open>When no callback throws, the model of \<^verbatim>\<open>tools.filter\<close> is the list filter.\<close>

lemma filterTools_filter:
  "filterTools ts perms = Inr eff \<Longrightarrow> eff = filter (\<lambda>t. keepTool perms t = Inr True) ts"
  by (induction ts arbitrary: eff) (auto split: sum.splits if_splits)

lemma filterTools_total:
  "\<forall>t\<in>set ts. TOOL_CAPABILITY_MAP t \<noteq> Some inheritedMember \<Longrightarrow>
   \<exists>eff. filterTools ts perms = Inr eff"
proof (induction ts)
  case Nil
  then show ?case by simp
next
  case (Cons t ts)
  then obtain b where "keepTool perms t = Inr b"
    using keepTool_total by fastforce
  moreover from Cons obtain eff where "filterTools ts perms = Inr eff"
    by auto
  ultimately show ?case by simp
qed

lemma TOOL_CAPABILITY_MAP_examples:
  "TOOL_CAPABILITY_MAP ''fetch'' = Some (capabilityArray [network])"
  "TOOL_CAPABILITY_MAP ''read'' = Some (capabilityArray [filesystem])"
  "TOOL_CAPABILITY_MAP ''npm'' = Some (capabilityArray [network, filesystem])"
  "TOOL_CAPABILITY_MAP ''grep'' = Some (capabilityArray [])"
  "TOOL_CAPABILITY_MAP ''deploy'' = None"
  "TOOL_CAPABILITY_MAP ''constructor'' = Some inheritedMember"
  by (simp_all add: TOOL_CAPABILITY_MAP_def TOOL_CAPABILITY_MAP_own_def
      Object_prototype_members_def)

lemma netManifest_filter:
  "filterTools (tools netManifest) (permissions netManifest) = Inr [''read'', ''grep'', ''deploy'']"
  by (simp add: netManifest_def DEV_MANIFEST_def keepTool_def array_includes_def
      TOOL_CAPABILITY_MAP_examples)

text \<open>
  Claim C1. For every manifest \<open>m\<close>, the effective tool list of the resolved scope is a
  subset of the manifest's tools, and when \<^verbatim>\<open>allowNetwork\<close> is \<^verbatim>\<open>false\<close> no tool that the
  capability map tags \<^verbatim>\<open>network\<close> is in it. The first conjunct states this for every list
  that \<open>filterTools\<close> returns (\<open>spawnAgent\<close> passes that list on to \<open>resolveScope\<close>); the
  second states that \<open>filterTools\<close> does return one whenever no tool name of the manifest
  is a member that the capability map inherits from \<^verbatim>\<open>Object.prototype\<close>.
\<close>

theorem resolveScope_tools_ceiling:
  "(\<forall>eff. filterTools (tools m) (permissions m) = Inr eff \<longrightarrow>
      set (effectiveTools (resolveScope m eff)) \<subseteq> set (tools m) \<and>
      (allowNetwork (permissions m) = NetBool False \<longrightarrow>
         (\<forall>t \<in> set (effectiveTools (resolveScope m eff)). \<not> hasCapability t network))) \<and>
   ((\<forall>t \<in> set (tools m). TOOL_CAPABILITY_MAP t \<noteq> Some inheritedMember) \<longrightarrow>
      (\<exists>eff. filterTools (tools m) (permissions m) = Inr eff))"
proof (intro conjI allI impI)
  fix eff
  assume e: "filterTools (tools m) (permissions m) = Inr eff"
  have sel: "effectiveTools (resolveScope m eff) = eff"
    by (simp add: resolveScope_def)
  from filterTools_filter [OF e]
  show "set (effectiveTools (resolveScope m eff)) \<subseteq> set (tools m)"
    unfolding sel by auto
  assume n: "allowNetwork (permissions m) = NetBool False"
  show "\<forall>t \<in> set (effectiveTools (resolveScope m eff)). \<not> hasCapability t network"
    unfolding sel using filterTools_filter [OF e] keepTool_network [OF _ n] by auto
next
  assume "\<forall>t \<in> set (tools m). TOOL_CAPABILITY_MAP t \<noteq> Some inheritedMember"
  then show "\<exists>eff. filterTools (tools m) (permissions m) = Inr eff"
    by (rule filterTools_total)
qed

theorem resolveScope_tools_ceiling_witness:
  "filterTools (tools netManifest) (permissions netManifest) = Inr [''read'', ''grep'', ''deploy''] \<and>
   allowNetwork (permissions netManifest) = NetBool False \<and>
   set (effectiveTools (resolveScope netManifest [''read'', ''grep'', ''deploy'']))
     \<subseteq> set (tools netManifest) \<and>
   \<not> hasCapability ''read'' network \<and> hasCapability ''fetch'' network \<and>
   ''fetch'' \<in> set (tools netManifest) \<and>
   ''fetch'' \<notin> set (effectiveTools (resolveScope netManifest [''read'', ''grep'', ''deploy'']))"
  using resolveScope_tools_ceiling [of netManifest] netManifest_filter
  by (simp add: netManifest_def DEV_MANIFEST_def resolveScope_def hasCapability_def
      TOOL_CAPABILITY_MAP_examples)

text \<open>
  Claim C2. For every manifest whose \<^verbatim>\<open>allowNetwork\<close> is the boolean \<^verbatim>\<open>true\<close>, the resolved
  network policy is \<^verbatim>\<open>'none'\<close>; the policy is a domain list exactly when the permission is
  that explicit domain list, which passes through unchanged.
\<close>

theorem resolveScope_networkPolicy:
  "(allowNetwork (permissions m) = NetBool True \<longrightarrow>
      networkPolicy (resolveScope m eff) = network_none) \<and>
   (\<forall>ds. networkPolicy (resolveScope m eff) = network_domains ds \<longleftrightarrow>
          allowNetwork (permissions m) = NetDomains ds)"
  by (auto simp: resolveScope_def split: AllowNetwork.splits)

theorem resolveScope_networkPolicy_witness:
  "allowNetwork (permissions unrestrictedManifest) = NetBool True \<and>
   networkPolicy (resolveScope unrestrictedManifest (tools unrestrictedManifest)) = network_none"
  using resolveScope_networkPolicy [of unrestrictedManifest "tools unrestrictedManifest"]
  by (simp add: unrestrictedManifest_def DEV_MANIFEST_def)

section \<open>Instruction assembly\<close>

lemma buildPermissionsBlock_flat:
  "buildPermissionsBlock sc =
     ''---\<newline>\<newline>## Runtime Permissions\<newline>\<newline>'' @
     ''The following permissions are enforced structurally by the runtime.\<newline>'' @
     ''They are not guidelines. Attempting to exceed them will be denied and logged.\<newline>\<newline>'' @
     ''**Network access:** '' @
     (case networkPolicy sc of
        network_none \<Rightarrow> ''DENIED. No outbound network access is permitted.''
      | network_domains ds \<Rightarrow> ''RESTRICTED. Permitted domains: '' @ join '', '' ds @ ''.'') @
     ''\<newline>\<newline>'' @
     ''**Filesystem access:** '' @
     (if filesystemPolicy sc = fs_workspace
      then ''RESTRICTED. Read/write is permitted within ./workspace only. All other paths are denied.''
      else ''DENIED. No filesystem access is permitted.'') @
     ''\<newline>\<newline>'' @
     ''**Permitted tools:**\<newline>'' @
     (if effectiveTools sc = [] then ''  (none)''
      else join ''\<newline>'' (map (\<lambda>t. ''  - '' @ t) (effectiveTools sc))) @
     ''\<newline>\<newline>'' @
     ''**Execution time limit:** '' @ numberToString (scopeMaxExecutionTime sc) @ ''ms\<newline>\<newline>'' @
     ''**Cost cap:** '' @ numberToString (scopeMaxCostCap sc) @ '' tokens\<newline>\<newline>'' @
     ''---\<newline>\<newline>## Enforcement Notice\<newline>\<newline>'' @
     ''You are an untrusted, disposable runtime. Your capabilities are enforced externally.\<newline>'' @
     ''You have no memory of prior executions. You have no access to resources not listed above.\<newline>'' @
     ''Your output will be validated against the task specification before acceptance.\<newline>'' @
     ''If your task cannot be completed within these constraints, return a structured failure.\<newline>'' @
     ''Do not attempt workarounds. Do not escalate your own permissions. Fail explicitly.''"
  by (simp add: buildPermissionsBlock_def Let_def)

lemma trimEnd_no_trailing: "trimEnd ''# Dev Agent'' = ''# Dev Agent''"
  by (simp add: trimEnd_def isWhiteSpace_def)

lemma trimEnd_trailing_blanks: "trimEnd ''# Dev Agent  '' = ''# Dev Agent''"
  by (simp add: trimEnd_def isWhiteSpace_def)

lemma decimal_digit: "n < 10 \<Longrightarrow> decimal n = [digitChar n]"
  by (subst decimal.simps) simp

lemma decimal_step: "\<not> n < 10 \<Longrightarrow> decimal n = decimal (n div 10) @ [digitChar (n mod 10)]"
  by (subst decimal.simps) simp

lemma numberToString_limits:
  "numberToString (Abs_safeInteger 600000) = ''600000''"
  "numberToString (Abs_safeInteger 100000) = ''100000''"
  by (simp_all add: numberToString_def Abs_safeInteger_inverse decimal_digit decimal_step
      digitChar_def)

lemma scope_DEV_MANIFEST:
  "resolveScope DEV_MANIFEST (tools DEV_MANIFEST) =
     \<lparr> scopeRole = dev,
       effectiveTools = [''read'', ''write'', ''grep'', ''git'', ''npm test'', ''eslint'', ''tsc''],
       networkPolicy = network_none, filesystemPolicy = fs_workspace,
       scopeMaxExecutionTime = Abs_safeInteger 600000,
       scopeMaxCostCap = Abs_safeInteger 100000 \<rparr>"
  by (simp add: resolveScope_def DEV_MANIFEST_def)

text \<open>
  Claim C8, as the sources have it. For every role contract text and every resolved scope
  the assembled system prompt is one document in fixed order: the role contract with its
  trailing white space removed (\<^verbatim>\<open>roleContent.trimEnd()\<close>); a blank line; the constraints
  block, which states the network policy (denied, or restricted to the listed domains), the
  filesystem policy (restricted to \<^verbatim>\<open>./workspace\<close>, or denied), the effective tools, one per
  line in their order (or \<^verbatim>\<open>(none)\<close>), the time limit and the cost cap; and the enforcement
  notice (untrusted, no memory, fail explicitly), ended by one newline. The contract stands
  verbatim at the head of the document when it has no trailing white space.
\<close>

theorem assembleSystemPrompt_order:
  "assembleSystemPrompt roleContent sc =
     trimEnd roleContent @ ''\<newline>\<newline>'' @
     ''---\<newline>\<newline>## Runtime Permissions\<newline>\<newline>'' @
     ''The following permissions are enforced structurally by the runtime.\<newline>'' @
     ''They are not guidelines. Attempting to exceed them will be denied and logged.\<newline>\<newline>'' @
     ''**Network access:** '' @
     (case networkPolicy sc of
        network_none \<Rightarrow> ''DENIED. No outbound network access is permitted.''
      | network_domains ds \<Rightarrow> ''RESTRICTED. Permitted domains: '' @ join '', '' ds @ ''.'') @
     ''\<newline>\<newline>'' @
     ''**Filesystem access:** '' @
     (if filesystemPolicy sc = fs_workspace
      then ''RESTRICTED. Read/write is permitted within ./workspace only. All other paths are denied.''
      else ''DENIED. No filesystem access is permitted.'') @
     ''\<newline>\<newline>'' @
     ''**Permitted tools:**\<newline>'' @
     (if effectiveTools sc = [] then ''  (none)''
      else join ''\<newline>'' (map (\<lambda>t. ''  - '' @ t) (effectiveTools sc))) @
     ''\<newline>\<newline>'' @
     ''**Execution time limit:** '' @ numberToString (scopeMaxExecutionTime sc) @ ''ms\<newline>\<newline>'' @
     ''**Cost cap:** '' @ numberToString (scopeMaxCostCap sc) @ '' tokens\<newline>\<newline>'' @
     ''---\<newline>\<newline>## Enforcement Notice\<newline>\<newline>'' @
     ''You are an untrusted, disposable runtime. Your capabilities are enforced externally.\<newline>'' @
     ''You have no memory of prior executions. You have no access to resources not listed above.\<newline>'' @
     ''Your output will be validated against the task specification before acceptance.\<newline>'' @
     ''If your task cannot be completed within these constraints, return a structured failure.\<newline>'' @
     ''Do not attempt workarounds. Do not escalate your own permissions. Fail explicitly.\<newline>'' \<and>
   (trimEnd roleContent = roleContent \<longrightarrow>
      prefix roleContent (assembleSystemPrompt roleContent sc))"
proof
  show "assembleSystemPrompt roleContent sc =
     trimEnd roleContent @ ''\<newline>\<newline>'' @
     ''---\<newline>\<newline>## Runtime Permissions\<newline>\<newline>'' @
     ''The following permissions are enforced structurally by the runtime.\<newline>'' @
     ''They are not guidelines. Attempting to exceed them will be denied and logged.\<newline>\<newline>'' @
     ''**Network access:** '' @
     (case networkPolicy sc of
        network_none \<Rightarrow> ''DENIED. No outbound network access is permitted.''
      | network_domains ds \<Rightarrow> ''RESTRICTED. Permitted domains: '' @ join '', '' ds @ ''.'') @
     ''\<newline>\<newline>'' @
     ''**Filesystem access:** '' @
     (if filesystemPolicy sc = fs_workspace
      then ''RESTRICTED. Read/write is permitted within ./workspace only. All other paths are denied.''
      else ''DENIED. No filesystem access is permitted.'') @
     ''\<newline>\<newline>'' @
     ''**Permitted tools:**\<newline>'' @
     (if effectiveTools sc = [] then ''  (none)''
      else join ''\<newline>'' (map (\<lambda>t. ''  - '' @ t) (effectiveTools sc))) @
     ''\<newline>\<newline>'' @
     ''**Execution time limit:** '' @ numberToString (scopeMaxExecutionTime sc) @ ''ms\<newline>\<newline>'' @
     ''**Cost cap:** '' @ numberToString (scopeMaxCostCap sc) @ '' tokens\<newline>\<newline>'' @
     ''---\<newline>\<newline>## Enforcement Notice\<newline>\<newline>'' @
     ''You are an untrusted, disposable runtime. Your capabilities are enforced externally.\<newline>'' @
     ''You have no memory of prior executions. You have no access to resources not listed above.\<newline>'' @
     ''Your output will be validated against the task specification before acceptance.\<newline>'' @
     ''If your task cannot be completed within these constraints, return a structured failure.\<newline>'' @
     ''Do not attempt workarounds. Do not escalate your own permissions. Fail explicitly.\<newline>''"
    unfolding assembleSystemPrompt_def buildPermissionsBlock_flat by simp
  show "trimEnd roleContent = roleContent \<longrightarrow>
      prefix roleContent (assembleSystemPrompt roleContent sc)"
    by (simp add: assembleSystemPrompt_def)
qed

theorem assembleSystemPrompt_order_witness:
  "trimEnd ''# Dev Agent'' = ''# Dev Agent'' \<and>
   prefix ''# Dev Agent''
     (assembleSystemPrompt ''# Dev Agent'' (resolveScope DEV_MANIFEST (tools DEV_MANIFEST))) \<and>
   assembleSystemPrompt ''# Dev Agent'' (resolveScope DEV_MANIFEST (tools DEV_MANIFEST)) =
     ''# Dev Agent\<newline>\<newline>'' @
     ''---\<newline>\<newline>## Runtime Permissions\<newline>\<newline>'' @
     ''The following permissions are enforced structurally by the runtime.\<newline>'' @
     ''They are not guidelines. Attempting to exceed them will be denied and logged.\<newline>\<newline>'' @
     ''**Network access:** DENIED. No outbound network access is permitted.\<newline>\<newline>'' @
     ''**Filesystem access:** RESTRICTED. Read/write is permitted within ./workspace only. '' @
     ''All other paths are denied.\<newline>\<newline>'' @
     ''**Permitted tools:**\<newline>'' @
     ''  - read\<newline>  - write\<newline>  - grep\<newline>  - git\<newline>  - npm test\<newline>  - eslint\<newline>  - tsc\<newline>\<newline>'' @
     ''**Execution time limit:** 600000ms\<newline>\<newline>'' @
     ''**Cost cap:** 100000 tokens\<newline>\<newline>'' @
     ''---\<newline>\<newline>## Enforcement Notice\<newline>\<newline>'' @
     ''You are an untrusted, disposable runtime. Your capabilities are enforced externally.\<newline>'' @
     ''You have no memory of prior executions. You have no access to resources not listed above.\<newline>'' @
     ''Your output will be validated against the task specification before acceptance.\<newline>'' @
     ''If your task cannot be completed within these constraints, return a structured failure.\<newline>'' @
     ''Do not attempt workarounds. Do not escalate your own permissions. Fail explicitly.\<newline>''"
  using assembleSystemPrompt_order
          [of "''# Dev Agent''" "resolveScope DEV_MANIFEST (tools DEV_MANIFEST)"]
  by (simp add: trimEnd_no_trailing scope_DEV_MANIFEST numberToString_limits)

text \<open>
  The claim as the specification words it (the document begins with the contract verbatim)
  fails for a contract text that ends in blanks.
\<close>

theorem assembleSystemPrompt_verbatim_counterexample:
  "\<not> prefix ''# Dev Agent  ''
      (assembleSystemPrompt ''# Dev Agent  '' (resolveScope DEV_MANIFEST (tools DEV_MANIFEST)))"
  by (simp add: assembleSystemPrompt_def trimEnd_trailing_blanks)

section \<open>Agent spawning\<close>

lemma load_inheritedToolManifest:
  "loadSystemPromptContent env0 (systemPromptPath inheritedToolManifest) ''/repo'' =
     Some ''# Dev Agent\<newline>''"
  by (simp add: loadSystemPromptContent_def env0_def inheritedToolManifest_def DEV_MANIFEST_def)

text \<open>
  What \<open>spawnAgent\<close> returns. When the contract text cannot be read the result is the
  error \<^verbatim>\<open>system_prompt_missing\<close>; when it can be read and no tool name of the manifest is an
  inherited member of the capability map, the result is a populated agent record; and no
  returned error has another kind.
\<close>

lemma spawnAgent_outcomes:
  "(loadSystemPromptContent env (systemPromptPath m) root = None \<longrightarrow>
      (\<exists>e. spawnAgent env m t root w = Inr (failure e, w) \<and> kind e = system_prompt_missing)) \<and>
   (\<forall>rc. loadSystemPromptContent env (systemPromptPath m) root = Some rc \<longrightarrow>
      (\<forall>t\<in>set (tools m). TOOL_CAPABILITY_MAP t \<noteq> Some inheritedMember) \<longrightarrow>
      (\<exists>a w'. spawnAgent env m t root w = Inr (success a, w') \<and> manifest a = m \<and> task a = t \<and>
         filterTools (tools m) (permissions m) = Inr (effectiveTools (scope a)) \<and>
         scope a = resolveScope m (effectiveTools (scope a)) \<and>
         systemPrompt a = assembleSystemPrompt rc (scope a) \<and> status a = ready)) \<and>
   (\<forall>e w'. spawnAgent env m t root w = Inr (failure e, w') \<longrightarrow> kind e = system_prompt_missing)"
proof (intro conjI allI impI)
  assume "loadSystemPromptContent env (systemPromptPath m) root = None"
  then show "\<exists>e. spawnAgent env m t root w = Inr (failure e, w) \<and> kind e = system_prompt_missing"
    by (simp add: spawnAgent_def)
next
  fix rc
  assume l: "loadSystemPromptContent env (systemPromptPath m) root = Some rc"
    and "\<forall>t\<in>set (tools m). TOOL_CAPABILITY_MAP t \<noteq> Some inheritedMember"
  then obtain eff where "filterTools (tools m) (permissions m) = Inr eff"
    using filterTools_total by blast
  with l show "\<exists>a w'. spawnAgent env m t root w = Inr (success a, w') \<and> manifest a = m \<and>
         task a = t \<and>
         filterTools (tools m) (permissions m) = Inr (effectiveTools (scope a)) \<and>
         scope a = resolveScope m (effectiveTools (scope a)) \<and>
         systemPrompt a = assembleSystemPrompt rc (scope a) \<and> status a = ready"
    by (simp add: spawnAgent_def Let_def resolveScope_def split: prod.splits)
next
  fix e w'
  assume "spawnAgent env m t root w = Inr (failure e, w')"
  then show "kind e = system_prompt_missing"
    by (auto simp: spawnAgent_def Let_def split: option.splits sum.splits prod.splits)
qed

text \<open>
  Claim C9 (\<open>spawnAgent\<close> never throws; reading the contract text is its only failure
  case). The sources break it: for a manifest that lists the tool \<^verbatim>\<open>constructor\<close> and denies
  the network, the contract text is read, and then the tool filter reads
  \<^verbatim>\<open>TOOL_CAPABILITY_MAP['constructor']\<close>, finds the inherited \<^verbatim>\<open>Object\<close> function instead of
  \<^verbatim>\<open>undefined\<close>, and calls its missing method \<^verbatim>\<open>includes\<close>. The \<^verbatim>\<open>TypeError\<close> leaves
  \<open>spawnAgent\<close> uncaught.
\<close>

theorem spawnAgent_inherited_tool_throws:
  "loadSystemPromptContent env0 (systemPromptPath inheritedToolManifest) ''/repo'' =
     Some ''# Dev Agent\<newline>'' \<and>
   spawnAgent env0 inheritedToolManifest task0 ''/repo'' world0 = Inl TypeError"
  by (simp add: spawnAgent_def load_inheritedToolManifest)
     (simp add: inheritedToolManifest_def DEV_MANIFEST_def keepTool_def array_includes_def
        TOOL_CAPABILITY_MAP_examples)

section \<open>Task classification\<close>

lemma foldl_count:
  "foldl (\<lambda>count pattern. if P pattern then count + 1 else count) n ps = n + length (filter P ps)"
  by (induction ps arbitrary: n) auto

lemma countMatches_filter:
  "countMatches s ps = length (filter (\<lambda>p. test p s) ps)"
  by (simp add: countMatches_def foldl_count)

text \<open>
  Claim C3. For every task without an operator type hint, the classifier counts the
  technical and the business patterns that match the body (one per matching pattern) and
  routes to the execution stage exactly when the technical score is strictly greater than
  the business score; a business score that is at least 1 and at least the technical score
  gives the product route with category \<^verbatim>\<open>business\<close>; two zero scores give the product
  route with category \<^verbatim>\<open>ambiguous\<close>. So a tie or a body without signal never reaches the
  execution stage.
\<close>

theorem classify_tie_break:
  assumes "taskType t = None"
  shows "let technicalScore = length (filter (\<lambda>p. test p (body t)) TECHNICAL_PATTERNS);
             businessScore = length (filter (\<lambda>p. test p (body t)) BUSINESS_PATTERNS);
             r = fst (classify env t root w)
         in confidence r = heuristic \<and>
            (routedTo r = route_dev \<longleftrightarrow> technicalScore > businessScore) \<and>
            (routedTo r = route_dev \<longrightarrow> category r = technical_explicit) \<and>
            (businessScore \<ge> 1 \<and> businessScore \<ge> technicalScore \<longrightarrow>
               routedTo r = route_product \<and> category r = business) \<and>
            (technicalScore = 0 \<and> businessScore = 0 \<longrightarrow>
               routedTo r = route_product \<and> category r = ambiguous)"
  using assms
  by (auto simp: classify_def Let_def split_def countMatches_filter)

lemma scores_techTask:
  "length (filter (\<lambda>p. test p (body techTask)) TECHNICAL_PATTERNS) = 2"
  "length (filter (\<lambda>p. test p (body techTask)) BUSINESS_PATTERNS) = 0"
  unfolding techTask_def by code_simp+

lemma scores_tieTask:
  "length (filter (\<lambda>p. test p (body tieTask)) TECHNICAL_PATTERNS) = 1"
  "length (filter (\<lambda>p. test p (body tieTask)) BUSINESS_PATTERNS) = 1"
  unfolding tieTask_def by code_simp+

lemma scores_vagueTask:
  "length (filter (\<lambda>p. test p (body vagueTask)) TECHNICAL_PATTERNS) = 0"
  "length (filter (\<lambda>p. test p (body vagueTask)) BUSINESS_PATTERNS) = 0"
  unfolding vagueTask_def by code_simp+

theorem classify_tie_break_witness:
  "taskType techTask = None \<and> taskType tieTask = None \<and> taskType vagueTask = None \<and>
   routedTo (fst (classify env0 techTask ''/repo'' world0)) = route_dev \<and>
   category (fst (classify env0 techTask ''/repo'' world0)) = technical_explicit \<and>
   routedTo (fst (classify env0 tieTask ''/repo'' world0)) = route_product \<and>
   category (fst (classify env0 tieTask ''/repo'' world0)) = business \<and>
   routedTo (fst (classify env0 vagueTask ''/repo'' world0)) = route_product \<and>
   category (fst (classify env0 vagueTask ''/repo'' world0)) = ambiguous \<and>
   confidence (fst (classify env0 vagueTask ''/repo'' world0)) = heuristic"
proof -
  have n: "taskType techTask = None" "taskType tieTask = None" "taskType vagueTask = None"
    by (simp_all add: techTask_def tieTask_def vagueTask_def)
  show ?thesis
    using classify_tie_break [OF n(1), of env0 "''/repo''" world0]
      classify_tie_break [OF n(2), of env0 "''/repo''" world0]
      classify_tie_break [OF n(3), of env0 "''/repo''" world0]
    by (simp add: n scores_techTask scores_tieTask scores_vagueTask Let_def)
qed

section \<open>The validation stage\<close>

text \<open>
  Claim C10. For every intent spec and every execution output, a failed one included, the
  validation stage returns the verdict \<^verbatim>\<open>pass\<close>, a \<^verbatim>\<open>pass\<close> result for each requirement and
  each constraint of the spec, no scope violation, and a summary whose passed and total
  requirement counts are the number of requirements and whose failure counts are 0. The
  report is the same for every execution output.
\<close>

theorem executeQA_always_pass:
  "let r = fst (executeQA env spec out ident root w)
   in verdict r = pass \<and>
      map requirementId (requirementResults r) = map requirement_id (requirements spec) \<and>
      map requirementStatus (requirementResults r) = replicate (length (requirements spec)) pass \<and>
      map constraintId (constraintResults r) = map constraint_id (constraints spec) \<and>
      map constraintStatus (constraintResults r) = replicate (length (constraints spec)) pass \<and>
      scopeViolations r = [] \<and>
      summary r = \<lparr> totalRequirements = length (requirements spec),
                     passedRequirements = length (requirements spec),
                     failedRequirements = 0,
                     totalConstraints = length (constraints spec),
                     violatedConstraints = 0,
                     scopeViolationCount = 0 \<rparr> \<and>
      r = fst (executeQA env' spec out' ident' root' w')"
  by (simp add: executeQA_def Let_def split_def o_def map_replicate_const)

section \<open>The orchestrator's audit trail\<close>

lemma fun_upd_eq_same: "(f(x := a) = f(x := b)) = (a = b)"
  by (metis fun_upd_same)

lemma appends_trans:
  "appends p w w1 es \<Longrightarrow> appends p w1 w2 es' \<Longrightarrow> appends p w w2 (es @ es')"
  by (simp add: appends_def)

lemma Date_now_effect: "Date_now env w = (x, w') \<Longrightarrow> appends p w w' []"
  by (auto simp: Date_now_def appends_def)

lemma logEvent_effect:
  "appends (getLogPath env (eventTaskId e) root) w (logEvent env e root w) [e]"
  by (simp add: logEvent_def appends_def Let_def)

lemma orchestratorAgentId_effect:
  "orchestratorAgentId env r w = (i, w') \<Longrightarrow> appends p w w' [] \<and> (\<exists>s. i = r @ ''-'' @ s)"
  by (auto simp: orchestratorAgentId_def Date_now_def randomBytes_def appends_def Let_def)

lemma logSpawn_effect:
  "\<exists>ts. appends (getLogPath env tid root) w (logSpawn env tid i r root w)
      [\<lparr> timestamp = ts, eventTaskId = tid, eventType = ''agent_spawned'',
         eventAgentId = Some i, eventData = [(''role'', V_string r)] \<rparr>]"
  by (simp add: logSpawn_def Date_now_def logEvent_def appends_def Let_def fun_upd_eq_same)

lemma logDestroy_effect:
  "\<exists>ts. appends (getLogPath env tid root) w (logDestroy env tid i r root w)
      [\<lparr> timestamp = ts, eventTaskId = tid, eventType = ''agent_destroyed'',
         eventAgentId = Some i, eventData = [(''role'', V_string r)] \<rparr>]"
  by (simp add: logDestroy_def Date_now_def logEvent_def appends_def Let_def fun_upd_eq_same)

lemma classify_effect:
  "classify env t root w = (cl, w') \<Longrightarrow>
   \<exists>ts d. appends (getLogPath env (taskId t) root) w w'
      [\<lparr> timestamp = ts, eventTaskId = taskId t, eventType = ''classification'',
         eventAgentId = None, eventData = d \<rparr>]"
  by (auto simp: classify_def Let_def Date_now_def logEvent_def appends_def fun_upd_eq_same
      split: option.splits if_splits)

lemma executeProduct_effect:
  "executeProduct env t cl i root w = (sp, w') \<Longrightarrow>
   specTaskId sp = taskId t \<and>
   (\<exists>ts d ts' d'. appends (getLogPath env (taskId t) root) w w'
      [\<lparr> timestamp = ts, eventTaskId = taskId t, eventType = ''agent_execution_start'',
         eventAgentId = Some i, eventData = d \<rparr>,
       \<lparr> timestamp = ts', eventTaskId = taskId t, eventType = ''agent_execution_end'',
         eventAgentId = Some i, eventData = d' \<rparr>])"
  by (auto simp: executeProduct_def Let_def split_def Date_now_def randomBytes_def
      generateSpecId_def logEvent_def appends_def fun_upd_eq_same)

lemma buildInlineSpec_effect:
  "buildInlineSpec env t w = (sp, w') \<Longrightarrow> specTaskId sp = taskId t \<and> appends p w w' []"
  by (auto simp: buildInlineSpec_def Let_def split_def Date_now_def randomBytes_def
      generateSpecId_def appends_def)

lemma executeDev_effect:
  "executeDev env sp i root w = (out, w') \<Longrightarrow>
   \<exists>ts d ts' d'. appends (getLogPath env (specTaskId sp) root) w w'
      [\<lparr> timestamp = ts, eventTaskId = specTaskId sp, eventType = ''agent_execution_start'',
         eventAgentId = Some i, eventData = d \<rparr>,
       \<lparr> timestamp = ts', eventTaskId = specTaskId sp, eventType = ''agent_execution_end'',
         eventAgentId = Some i, eventData = d' \<rparr>]"
  by (auto simp: executeDev_def Let_def split_def Date_now_def logEvent_def appends_def
      fun_upd_eq_same)

lemma executeQA_effect:
  "executeQA env sp out i root w = (rep, w') \<Longrightarrow>
   \<exists>ts d ts' d'. appends (getLogPath env (specTaskId sp) root) w w'
      [\<lparr> timestamp = ts, eventTaskId = specTaskId sp, eventType = ''agent_execution_start'',
         eventAgentId = Some i, eventData = d \<rparr>,
       \<lparr> timestamp = ts', eventTaskId = specTaskId sp, eventType = ''agent_execution_end'',
         eventAgentId = Some i, eventData = d' \<rparr>]"
  by (auto simp: executeQA_def Let_def split_def Date_now_def logEvent_def appends_def
      fun_upd_eq_same)


lemma productBranch_effect:
  assumes "productBranch env t cl root w = (sp, w')"
  shows "specTaskId sp = taskId t \<and>
   (\<exists>i s ts1 ts2 d2 ts3 d3 ts4. i = ''product'' @ ''-'' @ s \<and>
      appends (getLogPath env (taskId t) root) w w'
      [\<lparr> timestamp = ts1, eventTaskId = taskId t, eventType = ''agent_spawned'',
         eventAgentId = Some i, eventData = [(''role'', V_string ''product'')] \<rparr>,
       \<lparr> timestamp = ts2, eventTaskId = taskId t, eventType = ''agent_execution_start'',
         eventAgentId = Some i, eventData = d2 \<rparr>,
       \<lparr> timestamp = ts3, eventTaskId = taskId t, eventType = ''agent_execution_end'',
         eventAgentId = Some i, eventData = d3 \<rparr>,
       \<lparr> timestamp = ts4, eventTaskId = taskId t, eventType = ''agent_destroyed'',
         eventAgentId = Some i, eventData = [(''role'', V_string ''product'')] \<rparr>])"
proof -
  let ?p = "getLogPath env (taskId t) root"
  obtain i w1 where 1: "orchestratorAgentId env ''product'' w = (i, w1)"
    by (cases "orchestratorAgentId env ''product'' w")
  obtain sp' w3 where 3:
    "executeProduct env t cl i root (logSpawn env (taskId t) i ''product'' root w1) = (sp', w3)"
    by (cases "executeProduct env t cl i root (logSpawn env (taskId t) i ''product'' root w1)")
  from assms have sp: "sp' = sp" and w': "w' = logDestroy env (taskId t) i ''product'' root w3"
    by (simp_all add: productBranch_def 1 3)
  from orchestratorAgentId_effect [OF 1, of ?p]
  obtain s where a1: "appends ?p w w1 []" and i: "i = ''product'' @ ''-'' @ s"
    by auto
  from logSpawn_effect [of env "taskId t" root w1 i "''product''"]
  obtain ts1 where a2: "appends ?p w1 (logSpawn env (taskId t) i ''product'' root w1)
      [\<lparr> timestamp = ts1, eventTaskId = taskId t, eventType = ''agent_spawned'',
         eventAgentId = Some i, eventData = [(''role'', V_string ''product'')] \<rparr>]"
    by auto
  from executeProduct_effect [OF 3]
  obtain ts2 d2 ts3 d3 where t: "specTaskId sp' = taskId t"
    and a3: "appends ?p (logSpawn env (taskId t) i ''product'' root w1) w3
      [\<lparr> timestamp = ts2, eventTaskId = taskId t, eventType = ''agent_execution_start'',
         eventAgentId = Some i, eventData = d2 \<rparr>,
       \<lparr> timestamp = ts3, eventTaskId = taskId t, eventType = ''agent_execution_end'',
         eventAgentId = Some i, eventData = d3 \<rparr>]"
    by auto
  from logDestroy_effect [of env "taskId t" root w3 i "''product''"]
  obtain ts4 where a4: "appends ?p w3 w'
      [\<lparr> timestamp = ts4, eventTaskId = taskId t, eventType = ''agent_destroyed'',
         eventAgentId = Some i, eventData = [(''role'', V_string ''product'')] \<rparr>]"
    unfolding w' by auto
  from appends_trans [OF appends_trans [OF appends_trans [OF a1 a2] a3] a4]
  have "appends ?p w w'
      [\<lparr> timestamp = ts1, eventTaskId = taskId t, eventType = ''agent_spawned'',
         eventAgentId = Some i, eventData = [(''role'', V_string ''product'')] \<rparr>,
       \<lparr> timestamp = ts2, eventTaskId = taskId t, eventType = ''agent_execution_start'',
         eventAgentId = Some i, eventData = d2 \<rparr>,
       \<lparr> timestamp = ts3, eventTaskId = taskId t, eventType = ''agent_execution_end'',
         eventAgentId = Some i, eventData = d3 \<rparr>,
       \<lparr> timestamp = ts4, eventTaskId = taskId t, eventType = ''agent_destroyed'',
         eventAgentId = Some i, eventData = [(''role'', V_string ''product'')] \<rparr>]"
    by simp
  with t i sp show ?thesis by blast
qed

lemma inlineBranch_effect:
  assumes "inlineBranch env t cl root w = (sp, w')"
  shows "specTaskId sp = taskId t \<and>
   (\<exists>ts d. appends (getLogPath env (taskId t) root) w w'
      [\<lparr> timestamp = ts, eventTaskId = taskId t, eventType = ''product_skipped'',
         eventAgentId = None, eventData = d \<rparr>])"
  using assms
  by (auto simp: inlineBranch_def buildInlineSpec_def Let_def split_def Date_now_def
      randomBytes_def generateSpecId_def logEvent_def appends_def fun_upd_eq_same)


text \<open>
  Claim C7. For every task, the events that a completed run of the orchestrator appends to
  the task's audit file begin with \<^verbatim>\<open>execution_start\<close> and end with \<^verbatim>\<open>execution_end\<close>, which
  carries the verdict and the summary of the validation report; and every \<^verbatim>\<open>agent_spawned\<close>
  event has an agent id for which exactly one \<^verbatim>\<open>agent_destroyed\<close> event is in the sequence,
  later than the spawn. There are four spawns on the product route and three otherwise.
\<close>

theorem run_audit_ordering:
  "\<exists>res w' es.
     run env t root w = (res, w') \<and>
     appends (getLogPath env (taskId t) root) w w' es \<and>
     es \<noteq> [] \<and>
     eventType (hd es) = ''execution_start'' \<and>
     eventType (last es) = ''execution_end'' \<and>
     eventData (last es) =
       [(''verdict'', V_string (verdictName (verdict (validation res)))),
        (''summary'', summaryValue (summary (validation res)))] \<and>
     length (filter (\<lambda>e. eventType e = ''agent_spawned'') es) =
       (if routedTo (classification res) = route_product then 4 else 3) \<and>
     spawnsMatched es"
proof -
  let ?p = "getLogPath env (taskId t) root"
  let ?E = "\<lambda>ts ty ag d. \<lparr> timestamp = ts, eventTaskId = taskId t, eventType = ty,
                              eventAgentId = ag, eventData = d \<rparr>"
  obtain started w1 where 1: "Date_now env w = (started, w1)"
    by (cases "Date_now env w")
  let ?e1 = "?E started ''execution_start'' None [(''body'', V_string (body t))]"
  let ?w2 = "logEvent env ?e1 root w1"
  obtain cid w3 where 3: "orchestratorAgentId env ''coordinator'' ?w2 = (cid, w3)"
    by (cases "orchestratorAgentId env ''coordinator'' ?w2")
  let ?w4 = "logSpawn env (taskId t) cid ''coordinator'' root w3"
  obtain cl w5 where 5: "classify env t root ?w4 = (cl, w5)"
    by (cases "classify env t root ?w4")
  let ?w6 = "logDestroy env (taskId t) cid ''coordinator'' root w5"
  obtain spec w7 where 7:
    "(if routedTo cl = route_product then productBranch env t cl root ?w6
      else inlineBranch env t cl root ?w6) = (spec, w7)"
    by (cases "if routedTo cl = route_product then productBranch env t cl root ?w6
               else inlineBranch env t cl root ?w6")
  obtain did w8 where 8: "orchestratorAgentId env ''dev'' w7 = (did, w8)"
    by (cases "orchestratorAgentId env ''dev'' w7")
  let ?w9 = "logSpawn env (taskId t) did ''dev'' root w8"
  obtain out w10 where 10: "executeDev env spec did root ?w9 = (out, w10)"
    by (cases "executeDev env spec did root ?w9")
  let ?w11 = "logDestroy env (taskId t) did ''dev'' root w10"
  obtain qid w12 where 12: "orchestratorAgentId env ''qa'' ?w11 = (qid, w12)"
    by (cases "orchestratorAgentId env ''qa'' ?w11")
  let ?w13 = "logSpawn env (taskId t) qid ''qa'' root w12"
  obtain report w14 where 14: "executeQA env spec out qid root ?w13 = (report, w14)"
    by (cases "executeQA env spec out qid root ?w13")
  let ?w15 = "logDestroy env (taskId t) qid ''qa'' root w14"
  obtain ended w16 where 16: "Date_now env ?w15 = (ended, w16)"
    by (cases "Date_now env ?w15")
  let ?e17 = "?E ended ''execution_end'' None
                [(''verdict'', V_string (verdictName (verdict report))),
                 (''summary'', summaryValue (summary report))]"
  let ?w17 = "logEvent env ?e17 root w16"
  let ?res = "\<lparr> resultTaskId = taskId t, classification = cl, intentSpec = spec,
                devOutput = out, validation = report \<rparr>"
  have run_eq: "run env t root w = (?res, ?w17)"
    by (simp add: run_def Let_def 1 3 5 7 8 10 12 14 16)
  note a1 = Date_now_effect [OF 1, of ?p]
  have a2: "appends ?p w1 ?w2 [?e1]"
    using logEvent_effect [of env ?e1 root w1] by simp
  from orchestratorAgentId_effect [OF 3, of ?p]
  obtain s1 where a3: "appends ?p ?w2 w3 []" and cid: "cid = ''coordinator'' @ ''-'' @ s1"
    by auto
  from logSpawn_effect [of env "taskId t" root w3 cid "''coordinator''"]
  obtain ts4 where a4: "appends ?p w3 ?w4
      [?E ts4 ''agent_spawned'' (Some cid) [(''role'', V_string ''coordinator'')]]"
    by auto
  from classify_effect [OF 5]
  obtain ts5 d5 where a5: "appends ?p ?w4 w5 [?E ts5 ''classification'' None d5]"
    by auto
  from logDestroy_effect [of env "taskId t" root w5 cid "''coordinator''"]
  obtain ts6 where a6: "appends ?p w5 ?w6
      [?E ts6 ''agent_destroyed'' (Some cid) [(''role'', V_string ''coordinator'')]]"
    by auto
  have a7: "specTaskId spec = taskId t \<and>
    (\<exists>es7. appends ?p ?w6 w7 es7 \<and>
       ((routedTo cl = route_product \<and>
         (\<exists>s ts1 ts2 d2 ts3 d3 ts4.
            es7 = [?E ts1 ''agent_spawned'' (Some (''product'' @ ''-'' @ s))
                     [(''role'', V_string ''product'')],
                   ?E ts2 ''agent_execution_start'' (Some (''product'' @ ''-'' @ s)) d2,
                   ?E ts3 ''agent_execution_end'' (Some (''product'' @ ''-'' @ s)) d3,
                   ?E ts4 ''agent_destroyed'' (Some (''product'' @ ''-'' @ s))
                     [(''role'', V_string ''product'')]])) \<or>
        (routedTo cl \<noteq> route_product \<and>
         (\<exists>ts d. es7 = [?E ts ''product_skipped'' None d]))))"
  proof (cases "routedTo cl = route_product")
    case True
    with 7 have "productBranch env t cl root ?w6 = (spec, w7)" by simp
    from productBranch_effect [OF this] True show ?thesis by blast
  next
    case False
    with 7 have "inlineBranch env t cl root ?w6 = (spec, w7)" by simp
    from inlineBranch_effect [OF this] False show ?thesis by blast
  qed
  then obtain es7 where st: "specTaskId spec = taskId t"
    and a7': "appends ?p ?w6 w7 es7"
    and es7: "(routedTo cl = route_product \<and>
         (\<exists>s ts1 ts2 d2 ts3 d3 ts4.
            es7 = [?E ts1 ''agent_spawned'' (Some (''product'' @ ''-'' @ s))
                     [(''role'', V_string ''product'')],
                   ?E ts2 ''agent_execution_start'' (Some (''product'' @ ''-'' @ s)) d2,
                   ?E ts3 ''agent_execution_end'' (Some (''product'' @ ''-'' @ s)) d3,
                   ?E ts4 ''agent_destroyed'' (Some (''product'' @ ''-'' @ s))
                     [(''role'', V_string ''product'')]])) \<or>
        (routedTo cl \<noteq> route_product \<and>
         (\<exists>ts d. es7 = [?E ts ''product_skipped'' None d]))"
    by blast
  from orchestratorAgentId_effect [OF 8, of ?p]
  obtain s8 where a8: "appends ?p w7 w8 []" and did: "did = ''dev'' @ ''-'' @ s8"
    by auto
  from logSpawn_effect [of env "taskId t" root w8 did "''dev''"]
  obtain ts9 where a9: "appends ?p w8 ?w9
      [?E ts9 ''agent_spawned'' (Some did) [(''role'', V_string ''dev'')]]"
    by auto
  from executeDev_effect [OF 10] st
  obtain ts10 d10 ts10' d10' where a10: "appends ?p ?w9 w10
      [?E ts10 ''agent_execution_start'' (Some did) d10,
       ?E ts10' ''agent_execution_end'' (Some did) d10']"
    by auto
  from logDestroy_effect [of env "taskId t" root w10 did "''dev''"]
  obtain ts11 where a11: "appends ?p w10 ?w11
      [?E ts11 ''agent_destroyed'' (Some did) [(''role'', V_string ''dev'')]]"
    by auto
  from orchestratorAgentId_effect [OF 12, of ?p]
  obtain s12 where a12: "appends ?p ?w11 w12 []" and qid: "qid = ''qa'' @ ''-'' @ s12"
    by auto
  from logSpawn_effect [of env "taskId t" root w12 qid "''qa''"]
  obtain ts13 where a13: "appends ?p w12 ?w13
      [?E ts13 ''agent_spawned'' (Some qid) [(''role'', V_string ''qa'')]]"
    by auto
  from executeQA_effect [OF 14] st
  obtain ts14 d14 ts14' d14' where a14: "appends ?p ?w13 w14
      [?E ts14 ''agent_execution_start'' (Some qid) d14,
       ?E ts14' ''agent_execution_end'' (Some qid) d14']"
    by auto
  from logDestroy_effect [of env "taskId t" root w14 qid "''qa''"]
  obtain ts15 where a15: "appends ?p w14 ?w15
      [?E ts15 ''agent_destroyed'' (Some qid) [(''role'', V_string ''qa'')]]"
    by auto
  note a16 = Date_now_effect [OF 16, of ?p]
  have a17: "appends ?p w16 ?w17 [?e17]"
    using logEvent_effect [of env ?e17 root w16] by simp
  let ?head = "[?e1,
      ?E ts4 ''agent_spawned'' (Some cid) [(''role'', V_string ''coordinator'')],
      ?E ts5 ''classification'' None d5,
      ?E ts6 ''agent_destroyed'' (Some cid) [(''role'', V_string ''coordinator'')]]"
  let ?tail = "[?E ts9 ''agent_spawned'' (Some did) [(''role'', V_string ''dev'')],
      ?E ts10 ''agent_execution_start'' (Some did) d10,
      ?E ts10' ''agent_execution_end'' (Some did) d10',
      ?E ts11 ''agent_destroyed'' (Some did) [(''role'', V_string ''dev'')],
      ?E ts13 ''agent_spawned'' (Some qid) [(''role'', V_string ''qa'')],
      ?E ts14 ''agent_execution_start'' (Some qid) d14,
      ?E ts14' ''agent_execution_end'' (Some qid) d14',
      ?E ts15 ''agent_destroyed'' (Some qid) [(''role'', V_string ''qa'')],
      ?e17]"
  have head: "appends ?p w ?w6 ?head"
    using appends_trans [OF appends_trans [OF appends_trans [OF appends_trans
          [OF appends_trans [OF a1 a2] a3] a4] a5] a6]
    by simp
  have tail: "appends ?p w7 ?w17 ?tail"
    using appends_trans [OF appends_trans [OF appends_trans [OF appends_trans
          [OF appends_trans [OF appends_trans [OF appends_trans [OF appends_trans
          [OF appends_trans [OF a8 a9] a10] a11] a12] a13] a14] a15] a16] a17]
    by simp
  have all: "appends ?p w ?w17 (?head @ es7 @ ?tail)"
    using appends_trans [OF appends_trans [OF head a7'] tail] by simp
  have props: "eventType (hd (?head @ es7 @ ?tail)) = ''execution_start'' \<and>
      eventType (last (?head @ es7 @ ?tail)) = ''execution_end'' \<and>
      eventData (last (?head @ es7 @ ?tail)) =
        [(''verdict'', V_string (verdictName (verdict report))),
         (''summary'', summaryValue (summary report))]"
    by simp
  have matched: "length (filter (\<lambda>e. eventType e = ''agent_spawned'') (?head @ es7 @ ?tail)) =
       (if routedTo cl = route_product then 4 else 3) \<and>
     spawnsMatched (?head @ es7 @ ?tail)"
    using es7
  proof (elim disjE conjE exE)
    fix s ts1 ts2 d2 ts3 d3 ts4'
    assume r: "routedTo cl = route_product"
      and e: "es7 = [?E ts1 ''agent_spawned'' (Some (''product'' @ ''-'' @ s))
                     [(''role'', V_string ''product'')],
                   ?E ts2 ''agent_execution_start'' (Some (''product'' @ ''-'' @ s)) d2,
                   ?E ts3 ''agent_execution_end'' (Some (''product'' @ ''-'' @ s)) d3,
                   ?E ts4' ''agent_destroyed'' (Some (''product'' @ ''-'' @ s))
                     [(''role'', V_string ''product'')]]"
    show ?thesis
      unfolding e cid did qid
      by (simp add: r spawnsMatched_def destroyedOnceAfter_def Let_def)
  next
    fix ts d
    assume r: "routedTo cl \<noteq> route_product"
      and e: "es7 = [?E ts ''product_skipped'' None d]"
    show ?thesis
      unfolding e cid did qid
      by (simp add: r spawnsMatched_def destroyedOnceAfter_def Let_def)
  qed
  from run_eq all props matched show ?thesis
    by (intro exI [of _ ?res] exI [of _ ?w17] exI [of _ "?head @ es7 @ ?tail"]) simp
qed


theorem run_audit_ordering_witness:
  "\<exists>res w' es.
     run env0 vagueTask ''/repo'' world0 = (res, w') \<and>
     appends (getLogPath env0 (taskId vagueTask) ''/repo'') world0 w' es \<and>
     es \<noteq> [] \<and>
     eventType (hd es) = ''execution_start'' \<and>
     eventType (last es) = ''execution_end'' \<and>
     eventData (last es) =
       [(''verdict'', V_string (verdictName (verdict (validation res)))),
        (''summary'', summaryValue (summary (validation res)))] \<and>
     length (filter (\<lambda>e. eventType e = ''agent_spawned'') es) =
       (if routedTo (classification res) = route_product then 4 else 3) \<and>
     spawnsMatched es"
  by (rule run_audit_ordering)

section \<open>The response parser\<close>

subsection \<open>Bracket matching\<close>



















lemmas json_eval = JSON_parse_def isJsonSpace_def isDigit_def isLower_def startValue_def
  isNumberChar_def afterValue_def emit_def validNumber_def intPart_def fracPart_def expPart_def




subsection \<open>Outcomes of \<open>parseJSON\<close>\<close>

lemma orElse_JNull_iff: "orElse a b = JNull \<longleftrightarrow> a = JNull \<and> b = JNull"
  by (simp add: orElse_def)

text \<open>
  What \<open>parseJSON\<close> does, for every text and every validator. With \<open>extracted\<close> the first
  result other than \<^verbatim>\<open>null\<close> among the three strategies (\<^verbatim>\<open>null\<close> when there is none): the
  error \<^verbatim>\<open>invalid_json\<close> is returned exactly when all three strategies return \<^verbatim>\<open>null\<close>, and
  then the validator is not called; otherwise the validator is called on \<open>extracted\<close>, and
  what it throws is thrown by \<open>parseJSON\<close>, its \<^verbatim>\<open>false\<close> gives \<^verbatim>\<open>schema_mismatch\<close>, its
  \<^verbatim>\<open>true\<close> gives \<open>extracted\<close>. Every error carries the text as it was passed.
\<close>

lemma parseJSON_results:
  "let extracted = orElse (tryDirectParse (trim text))
                     (orElse (tryCodeFenceParse (trim text)) (tryBracketExtract (trim text)))
   in ((\<exists>e. parseJSON text validate = Inr (rejected e) \<and> errorKind e = invalid_json) \<longleftrightarrow>
         (tryDirectParse (trim text) = JNull \<and> tryCodeFenceParse (trim text) = JNull \<and>
          tryBracketExtract (trim text) = JNull)) \<and>
      ((\<exists>e. parseJSON text validate = Inr (rejected e) \<and> errorKind e = schema_mismatch) \<longleftrightarrow>
         (extracted \<noteq> JNull \<and> validate extracted = Inr False)) \<and>
      ((\<exists>v. parseJSON text validate = Inr (parsed v)) \<longleftrightarrow>
         (extracted \<noteq> JNull \<and> validate extracted = Inr True)) \<and>
      (parseJSON text validate = Inl thrown \<longleftrightarrow>
         (extracted \<noteq> JNull \<and> validate extracted = Inl thrown)) \<and>
      (\<forall>v. parseJSON text validate = Inr (parsed v) \<longrightarrow> v = extracted) \<and>
      (\<forall>e. parseJSON text validate = Inr (rejected e) \<longrightarrow> raw e = text)"
  by (auto simp: parseJSON_def Let_def orElse_JNull_iff split: sum.splits)

text \<open>
  For every text whose trimmed form is valid JSON for a value other than \<^verbatim>\<open>null\<close>, and
  every validator that accepts the value, \<open>parseJSON\<close> succeeds with the result of
  strategy 1, which is that value.
\<close>

lemma parseJSON_first_strategy:
  "JSON_parse (trim text) = Some v \<Longrightarrow> v \<noteq> JNull \<Longrightarrow> validate v = Inr True \<Longrightarrow>
     tryDirectParse (trim text) = v \<and> parseJSON text validate = Inr (parsed v)"
  by (simp add: parseJSON_def Let_def orElse_def tryDirectParse_def)

lemma trim_noiseText: "trim noiseText = noiseText"
  by (simp add: trim_def trimStart_def trimEnd_def isWhiteSpace_def noiseText_def)

lemma trim_arrayText: "trim arrayText = ''[1,2]''"
  by (simp add: trim_def trimStart_def trimEnd_def isWhiteSpace_def arrayText_def)

lemma strategies_noiseText:
  "tryDirectParse noiseText = JNull" "tryCodeFenceParse noiseText = JNull"
  "tryBracketExtract noiseText = JNull"
  by (simp_all add: noiseText_def tryDirectParse_def tryCodeFenceParse_def codeFenceCapture_def
      tryBracketExtract_def bracketSlice_def json_eval)

lemma parse_arrayText: "JSON_parse ''[1,2]'' = Some (JArray [JNumber ''1'', JNumber ''2''])"
  by (simp add: json_eval)

lemma strategies_arrayText:
  "tryDirectParse ''[1,2]'' = JArray [JNumber ''1'', JNumber ''2'']"
  by (simp add: tryDirectParse_def parse_arrayText)

lemma parseJSON_noiseText:
  "parseJSON noiseText (typeGuard acceptAny) =
     Inr (rejected \<lparr> raw = noiseText,
                      message = ''Failed to extract valid JSON from LLM response.'',
                      errorKind = invalid_json \<rparr>)"
  by (simp add: parseJSON_def trim_noiseText strategies_noiseText orElse_def)

lemma parseJSON_arrayText:
  "parseJSON arrayText (typeGuard acceptAny) = Inr (parsed (JArray [JNumber ''1'', JNumber ''2'']))"
  by (simp add: parseJSON_def trim_arrayText strategies_arrayText orElse_def typeGuard_def
      acceptAny_def)

lemma parseJSON_arrayText_rejected:
  "parseJSON arrayText (typeGuard isObject) =
     Inr (rejected \<lparr> raw = arrayText,
                      message = ''JSON parsed successfully but does not match expected schema.'',
                      errorKind = schema_mismatch \<rparr>)"
  by (simp add: parseJSON_def trim_arrayText strategies_arrayText orElse_def typeGuard_def
      isObject_def)

lemma trim_null: "trim ''null'' = ''null''"
  by (simp add: trim_def trimStart_def trimEnd_def isWhiteSpace_def)

lemma parse_null: "JSON_parse ''null'' = Some JNull"
  by (simp add: json_eval)

lemma strategies_null:
  "tryDirectParse ''null'' = JNull" "tryCodeFenceParse ''null'' = JNull"
  "tryBracketExtract ''null'' = JNull"
  by (simp_all add: parse_null tryDirectParse_def tryCodeFenceParse_def codeFenceCapture_def
      tryBracketExtract_def bracketSlice_def)

lemma parse_scalars:
  "JSON_parse ''0'' = Some (JNumber ''0'')" "JSON_parse ''false'' = Some (JBool False)"
  "JSON_parse [CHR 0x22, CHR 0x22] = Some (JString [])"
  by (simp_all add: json_eval)

lemma trim_scalars:
  "trim ''0'' = ''0''" "trim ''false'' = ''false''"
  "trim [CHR 0x22, CHR 0x22] = [CHR 0x22, CHR 0x22]"
  by (simp_all add: trim_def trimStart_def trimEnd_def isWhiteSpace_def)

text \<open>
  Claim C4. The text \<^verbatim>\<open>null\<close> is its own trimmed form and is valid JSON: \<^verbatim>\<open>JSON.parse\<close> returns
  the value \<^verbatim>\<open>null\<close> for it, and the validator accepts that value. The claim, and the
  strategy order in the documentation of \<open>parseJSON\<close> (\<^verbatim>\<open>invalid_json\<close> if all strategies
  fail), give success with the parsed value. The code returns the error \<^verbatim>\<open>invalid_json\<close>
  with the message \<^verbatim>\<open>Failed to extract valid JSON from LLM response.\<close>: strategy 1 returns
  the parsed \<^verbatim>\<open>null\<close>, which \<^verbatim>\<open>??\<close> and the test \<^verbatim>\<open>parsed === null\<close> take for the sign of
  failure. The other scalar texts \<^verbatim>\<open>0\<close>, \<^verbatim>\<open>false\<close> and \<^verbatim>\<open>""\<close> succeed with their values under
  the same validator.
\<close>

theorem parseJSON_null_invalid_json:
  "JSON_parse (trim ''null'') = Some JNull \<and>
   typeGuard acceptAny JNull = Inr True \<and>
   parseJSON ''null'' (typeGuard acceptAny) =
     Inr (rejected \<lparr> raw = ''null'',
                      message = ''Failed to extract valid JSON from LLM response.'',
                      errorKind = invalid_json \<rparr>) \<and>
   parseJSON ''0'' (typeGuard acceptAny) = Inr (parsed (JNumber ''0'')) \<and>
   parseJSON ''false'' (typeGuard acceptAny) = Inr (parsed (JBool False)) \<and>
   parseJSON [CHR 0x22, CHR 0x22] (typeGuard acceptAny) = Inr (parsed (JString []))"
  by (simp add: parseJSON_def trim_null parse_null strategies_null trim_scalars parse_scalars
      tryDirectParse_def orElse_def typeGuard_def acceptAny_def)

text \<open>
  Claim C6. For the text \<^verbatim>\<open>null\<close> strategy 1 yields a value: \<^verbatim>\<open>JSON.parse\<close> returns \<^verbatim>\<open>null\<close>
  without throwing. The validator \<^verbatim>\<open>isObject\<close> rejects that value, so the claim, and the
  documentation of \<open>parseJSON\<close> (\<^verbatim>\<open>schema_mismatch\<close> if the JSON parses but the validator
  fails), give the error kind \<^verbatim>\<open>schema_mismatch\<close>. The code returns the error kind
  \<^verbatim>\<open>invalid_json\<close> and never calls the validator, while for the text \<^verbatim>\<open>[1,2]\<close>, which the
  same validator rejects as well, it returns \<^verbatim>\<open>schema_mismatch\<close>. The two error kinds
  therefore do not separate the texts that parse from those that do not. And \<open>parseJSON\<close>
  throws when the validator does, against the module's \<^verbatim>\<open>Never throws\<close>: the call of the
  validator stands outside any \<^verbatim>\<open>try\<close>, and the asserting validator throws a
  \<^verbatim>\<open>TypeError\<close> on the value of the text \<^verbatim>\<open>[1,2]\<close>.
\<close>

theorem parseJSON_null_error_kind:
  "JSON_parse (trim ''null'') = Some JNull \<and>
   typeGuard isObject JNull = Inr False \<and>
   parseJSON ''null'' (typeGuard isObject) =
     Inr (rejected \<lparr> raw = ''null'',
                      message = ''Failed to extract valid JSON from LLM response.'',
                      errorKind = invalid_json \<rparr>) \<and>
   JSON_parse (trim arrayText) = Some (JArray [JNumber ''1'', JNumber ''2'']) \<and>
   typeGuard isObject (JArray [JNumber ''1'', JNumber ''2'']) = Inr False \<and>
   parseJSON arrayText (typeGuard isObject) =
     Inr (rejected \<lparr> raw = arrayText,
                      message = ''JSON parsed successfully but does not match expected schema.'',
                      errorKind = schema_mismatch \<rparr>) \<and>
   assertObject (JArray [JNumber ''1'', JNumber ''2'']) = Inl TypeError \<and>
   parseJSON arrayText assertObject = Inl TypeError"
  by (simp add: parseJSON_def trim_null parse_null strategies_null trim_arrayText parse_arrayText
      strategies_arrayText orElse_def typeGuard_def isObject_def assertObject_def)

end
